theory Spec2Isabelle
  imports Complex_Main "HOL-Library.Sublist" "HOL-Library.Multiset"
begin

section \<open>Strings\<close>

text \<open>
  A Python \<open>str\<close> is modelled as a \<^typ>\<open>string\<close> whose characters are the code points
  below 256.  On these, \<open>str.lower\<close> maps \<open>A\<close>..\<open>Z\<close> and the Latin-1 capitals
  (192..222 except the multiplication sign 215) to the letter 32 places further on,
  and \<open>str.isspace\<close> holds of the code points 9..13, 28..32, 133 and 160.
\<close>

definition lower_char :: "char \<Rightarrow> char" where
  "lower_char c =
     (let n = (of_char c :: nat)
      in if (65 \<le> n \<and> n \<le> 90) \<or> (192 \<le> n \<and> n \<le> 222 \<and> n \<noteq> 215)
         then char_of (n + 32) else c)"

definition lower :: "string \<Rightarrow> string" where
  "lower s = map lower_char s"

definition isspace :: "char \<Rightarrow> bool" where
  "isspace c =
     (let n = (of_char c :: nat)
      in (9 \<le> n \<and> n \<le> 13) \<or> (28 \<le> n \<and> n \<le> 32) \<or> n = 133 \<or> n = 160)"

text \<open>\<open>a in b\<close> on two strings is \<^term>\<open>sublist a b\<close>: \<open>a\<close> occurs in \<open>b\<close> as a
  contiguous run.\<close>

section \<open>Facility classifier (api\_handler.py)\<close>

type_synonym tags = "string \<rightharpoonup> string"

text \<open>\<open>tags.get(k) in vs\<close>: a missing key gives \<open>None\<close>, which is in no list of strings.\<close>

definition tag_in :: "tags \<Rightarrow> string \<Rightarrow> string list \<Rightarrow> bool" where
  "tag_in t k vs = (case t k of None \<Rightarrow> False | Some v \<Rightarrow> v \<in> set vs)"

text \<open>\<open>tags.get(k, "")\<close>.\<close>

definition tag_get :: "tags \<Rightarrow> string \<Rightarrow> string" where
  "tag_get t k = (case t k of None \<Rightarrow> [] | Some v \<Rightarrow> v)"

text \<open>\<open>k in tags\<close>.\<close>

definition has_key :: "tags \<Rightarrow> string \<Rightarrow> bool" where
  "has_key t k = (t k \<noteq> None)"

text \<open>\<open>any(keyword in name_lower for keyword in kws)\<close>.\<close>

definition any_keyword :: "string \<Rightarrow> string list \<Rightarrow> bool" where
  "any_keyword name_lower kws = list_ex (\<lambda>keyword. sublist keyword name_lower) kws"

text \<open>The nine conditions of \<open>analyze_element_for_categories\<close>, in the order of the
  source, each under the name of its comment (\<open># Cek Residential\<close>, ...).\<close>

definition cek_residential :: "tags \<Rightarrow> string \<Rightarrow> bool" where
  "cek_residential t name_lower =
     (tag_in t ''building'' [''residential'', ''apartments'', ''house'', ''dormitory''] \<or>
      t ''landuse'' = Some ''residential'' \<or>
      t ''amenity'' = Some ''housing'' \<or>
      any_keyword name_lower
        [''perumahan'', ''apartemen'', ''rumah susun'', ''asrama'', ''cluster'', ''villa'',
         ''apartment'', ''residence'', ''housing'', ''dormitory''])"

definition cek_education :: "tags \<Rightarrow> string \<Rightarrow> bool" where
  "cek_education t name_lower =
     (tag_in t ''amenity''
        [''school'', ''university'', ''college'', ''kindergarten'', ''language_school'',
         ''education'', ''training''] \<or>
      tag_in t ''building''
        [''school'', ''university'', ''college'', ''kindergarten'', ''education''] \<or>
      any_keyword name_lower
        [''sd'', ''smp'', ''sma'', ''smk'', ''universitas'', ''tk'', ''paud'', ''pesantren'',
         ''lembaga kursus'', ''sekolah'', ''school'', ''university'', ''college'', ''academy'',
         ''institute'', ''pendidikan'', ''education'', ''training'', ''kursus'', ''course''])"

definition cek_public_area :: "tags \<Rightarrow> string \<Rightarrow> bool" where
  "cek_public_area t name_lower =
     (tag_in t ''amenity''
        [''park'', ''community_centre'', ''marketplace'', ''place_of_worship'', ''bus_station'',
         ''terminal'', ''bus_stop'', ''ferry_terminal'', ''transportation'', ''public_building''] \<or>
      tag_in t ''leisure'' [''park'', ''garden'', ''playground''] \<or>
      tag_in t ''tourism'' [''museum'', ''gallery'', ''attraction''] \<or>
      has_key t ''public_transport'' \<or>
      tag_in t ''aeroway'' [''aerodrome'', ''terminal''] \<or>
      any_keyword name_lower
        [''taman kota'', ''alun-alun'', ''stasiun'', ''terminal'', ''tempat ibadah'', ''museum'',
         ''masjid'', ''gereja'', ''pura'', ''vihara'', ''klenteng'', ''mosque'', ''church'',
         ''temple'', ''synagogue'', ''park'', ''square'', ''station'', ''public area'',
         ''public space''])"

definition cek_culinary :: "tags \<Rightarrow> string \<Rightarrow> bool" where
  "cek_culinary t name_lower =
     (tag_in t ''amenity''
        [''restaurant'', ''cafe'', ''food_court'', ''fast_food'', ''bar'', ''pub'', ''bistro''] \<or>
      tag_in t ''shop''
        [''bakery'', ''coffee'', ''tea'', ''convenience'', ''grocery'', ''supermarket'', ''food''] \<or>
      has_key t ''cuisine'' \<or>
      any_keyword name_lower
        [''restoran'', ''warung makan'', ''kedai kopi'', ''street food'', ''food court'', ''cafe'',
         ''restaurant'',
         ''warung'', ''warteg'', ''rumah makan'', ''kantin'', ''angkringan'', ''kedai'', ''bakery'',
         ''bakeri'', ''kue'',
         ''roti'', ''makanan'', ''minuman'', ''kuliner'', ''catering'', ''dapur'', ''food'',
         ''coffee'', ''kopi'', ''makan'',
         ''padang'', ''stall'', ''canteen'', ''warmindo'', ''warung mie'', ''warung bakso'',
         ''warung nasi'',
         ''fried chicken'', ''ayam goreng'', ''ayam geprek'', ''burger'', ''pizza'', ''steakhouse'',
         ''bbq'',
         ''barbecue'', ''seafood'', ''aneka'', ''jus'', ''juice'', ''minuman'', ''milk'', ''tea'',
         ''teh'', ''ice cream'',
         ''es krim'', ''martabak'', ''depot'', ''eatery'', ''bakso'', ''mie ayam'', ''bebek'',
         ''seafood'', ''nasi'',
         ''gado-gado'', ''sate'', ''satay'', ''soto'', ''gulai'', ''rendang'', ''pecel'', ''padang'',
         ''bistro'', ''kebab''])"

text \<open>The first disjunct is the truth value of \<open>tags.get("shop")\<close>: a present, non-empty
  string.\<close>

definition cek_business_center :: "tags \<Rightarrow> string \<Rightarrow> bool" where
  "cek_business_center t name_lower =
     ((case t ''shop'' of None \<Rightarrow> False | Some v \<Rightarrow> v \<noteq> []) \<or>
      tag_in t ''building'' [''commercial'', ''office'', ''retail'', ''supermarket''] \<or>
      tag_in t ''amenity''
        [''marketplace'', ''bank'', ''atm'', ''bureau_de_change'', ''business_center''] \<or>
      has_key t ''office'' \<or>
      tag_in t ''shop''
        [''mall'', ''supermarket'', ''department_store'', ''convenience'', ''marketplace''] \<or>
      tag_in t ''landuse'' [''commercial'', ''retail''] \<or>
      any_keyword name_lower
        [''gedung perkantoran'', ''ruko'', ''coworking space'', ''perkantoran'', ''office building'',
         ''office tower'', ''mall'', ''plaza'', ''pusat bisnis'', ''business center'', ''pasar'',
         ''market'', ''shop'',
         ''toko'', ''retail'', ''store'', ''supermarket'', ''department store'',
         ''pusat perbelanjaan'',
         ''shopping center'', ''shopping mall'', ''plaza'', ''square'', ''trade center'', ''itc'',
         ''mangga dua'',
         ''tanah abang'', ''pasar'', ''market'', ''bazaar'', ''hypermarket'', ''carrefour'',
         ''giant'', ''lotte mart'',
         ''ramayana'', ''matahari'', ''metro'', ''transmart'', ''grand indonesia'', ''central park'',
         ''pondok indah'',
         ''teras kota''])"

definition cek_groceries :: "tags \<Rightarrow> string \<Rightarrow> bool" where
  "cek_groceries t name_lower =
     (tag_in t ''shop''
        [''supermarket'', ''grocery'', ''greengrocer'', ''butcher'', ''seafood'', ''deli'',
         ''spices'', ''bakery'', ''food''] \<or>
      t ''amenity'' = Some ''marketplace'' \<or>
      any_keyword name_lower
        [''toko kelontong'', ''toko sembako'', ''toko sayur'', ''mini market'', ''mini mart'',
         ''fresh market'',
         ''pasar tradisional'', ''supermarket'', ''hypermarket'', ''grocery'', ''greengrocer'',
         ''butcher'', ''seafood'',
         ''deli'', ''spices'', ''bakery'', ''pasar'', ''market'', ''swalayan'', ''toserba'',
         ''giant'', ''carrefour'',
         ''lottemart'', ''ranch market'', ''farmers market'', ''transmart'', ''hero'', ''brastagi'',
         ''foodmart'', ''foodhall'',
         ''organic'', ''food market'', ''superindo'', ''grand lucky'', ''total buah'', ''buah'',
         ''sayur'', ''vegetables'',
         ''fruits'', ''meat'', ''daging'', ''food'', ''makanan'', ''pasaraya'', ''fresh'', ''segar'',
         ''toko buah'', ''grocery'',
         ''groceries'', ''buah segar'', ''minimarket'', ''foodmart'', ''grosir'', ''wholesale'',
         ''retail'', ''super indo''])"

definition cek_convenient_stores :: "tags \<Rightarrow> string \<Rightarrow> bool" where
  "cek_convenient_stores t name_lower =
     (tag_in t ''shop'' [''convenience'', ''kiosk''] \<or>
      any_keyword name_lower
        [''indomaret'', ''alfamart'', ''alfamidi'', ''circle k'', ''family mart'', ''lawson'',
         ''7-eleven'', ''7 eleven'',
         ''seven eleven'', ''minimart'', ''mini mart'', ''mini market'', ''convenience store'',
         ''convenience'',
         ''toko kelontong'', ''warung kelontong'', ''kios'', ''kiosk'', ''toko'', ''mart'',
         ''eceran'', ''ritel'', ''minishop'',
         ''toko serba ada'', ''toko kecil'', ''wartel'', ''kiosco'', ''retail'', ''alfaexpress'',
         ''alfa midi'', ''alfa express'',
         ''indomart'', ''alfaexpress'', ''alfa'', ''indomaret point''])"

definition cek_industrial :: "tags \<Rightarrow> string \<Rightarrow> bool" where
  "cek_industrial t name_lower =
     (tag_in t ''landuse'' [''industrial'', ''factory''] \<or>
      tag_in t ''building''
        [''industrial'', ''factory'', ''warehouse'', ''manufacture'', ''manufacturing''] \<or>
      has_key t ''industrial'' \<or>
      tag_in t ''man_made'' [''works'', ''factory''] \<or>
      any_keyword name_lower
        [''pabrik'', ''factory'', ''industri'', ''industrial'', ''warehousing'', ''pergudangan'',
         ''gudang'', ''warehouse'',
         ''manufacturing'', ''kawasan industri'', ''workshop'', ''bengkel'', ''industrial estate'',
         ''industrial complex'',
         ''industrial park'', ''industrial area'', ''manufacture'', ''logistic'', ''logistik'',
         ''manufacturing'', ''assembly'',
         ''assembling'', ''processing'', ''storage'', ''fabrikasi'', ''fabrication'', ''plant'',
         ''kilang'', ''depot'', ''garasi'',
         ''maintenance'', ''pemeliharaan'', ''perbaikan'', ''repair'', ''machining'', ''welding'',
         ''galvanizing'', ''forge'',
         ''foundry'', ''smelter'', ''refinery'', ''kiln'', ''mill'', ''manufaktur''])"

definition cek_hospital_clinic :: "tags \<Rightarrow> string \<Rightarrow> bool" where
  "cek_hospital_clinic t name_lower =
     (tag_in t ''amenity''
        [''hospital'', ''clinic'', ''doctors'', ''healthcare'', ''dentist'', ''pharmacy'',
         ''veterinary'', ''health_centre''] \<or>
      has_key t ''healthcare'' \<or>
      tag_in t ''building'' [''hospital'', ''clinic'', ''healthcare''] \<or>
      t ''emergency'' = Some ''yes'' \<or>
      any_keyword name_lower
        [''rumah sakit'', ''hospital'', ''klinik'', ''clinic'', ''puskesmas'', ''bidan'', ''dokter'',
         ''doctor'', ''medical center'',
         ''pusat kesehatan'', ''rs'', ''apotek'', ''apotik'', ''pharmacy'', ''medical'',
         ''klinik gigi'', ''dental'', ''dentist'',
         ''orthodontist'', ''poliklinik'', ''laboratorium'', ''lab'', ''laboratory'', ''radiologi'',
         ''radiology'', ''ambulance'',
         ''ambulans'', ''icu'', ''igd'', ''ugd'', ''emergency'', ''physiotherapy'', ''fisioterapi'',
         ''rehab'', ''rehabilitasi'',
         ''rehabilitation'', ''psikiatri'', ''psychiatry'', ''psikologi'', ''psychology'',
         ''mental health'', ''kesehatan jiwa'',
         ''health'', ''medical service'', ''layanan kesehatan'', ''specialist'', ''spesialis'',
         ''care'', ''nursing'', ''perawatan'',
         ''therapy'', ''terapi'', ''orthopaedic'', ''orthopedic'', ''optometrist'', ''eye'', ''mata'',
         ''neurology'', ''saraf'',
         ''children'', ''anak'', ''ginekologi'', ''obstetri'', ''kanker'', ''cancer'',
         ''kardiovaskular'', ''cardiovascular'',
         ''jantung'', ''heart'', ''internist'', ''internal'', ''kulit'', ''skin'', ''urologi'',
         ''urology'', ''fertility'', ''reproduksi'',
         ''bedah'', ''surgery'', ''aesthetics'', ''kecantikan'', ''darurat'', ''intensive'',
         ''trauma''])"

text \<open>The dictionary every classification starts from: the nine keys, all \<open>False\<close>.\<close>

definition category_keys :: "string list" where
  "category_keys =
     [''residential'', ''education'', ''public_area'', ''culinary'', ''business_center'',
      ''groceries'', ''convenient_stores'', ''industrial'', ''hospital_clinic'']"

definition no_categories :: "string \<rightharpoonup> bool" where
  "no_categories =
     [''residential'' \<mapsto> False, ''education'' \<mapsto> False, ''public_area'' \<mapsto> False,
      ''culinary'' \<mapsto> False, ''business_center'' \<mapsto> False, ''groceries'' \<mapsto> False,
      ''convenient_stores'' \<mapsto> False, ''industrial'' \<mapsto> False, ''hospital_clinic'' \<mapsto> False]"

text \<open>\<open>if cond: result[key] = True\<close>.\<close>

definition set_true_if :: "bool \<Rightarrow> string \<Rightarrow> (string \<rightharpoonup> bool) \<Rightarrow> (string \<rightharpoonup> bool)" where
  "set_true_if cond key result = (if cond then result(key \<mapsto> True) else result)"

definition analyze_element_for_categories :: "tags \<Rightarrow> string \<Rightarrow> (string \<rightharpoonup> bool)" where
  "analyze_element_for_categories t name =
     (let name_lower = (if name \<noteq> [] then lower name else [])
      in (set_true_if (cek_hospital_clinic t name_lower) ''hospital_clinic''
         (set_true_if (cek_industrial t name_lower) ''industrial''
         (set_true_if (cek_convenient_stores t name_lower) ''convenient_stores''
         (set_true_if (cek_groceries t name_lower) ''groceries''
         (set_true_if (cek_business_center t name_lower) ''business_center''
         (set_true_if (cek_culinary t name_lower) ''culinary''
         (set_true_if (cek_public_area t name_lower) ''public_area''
         (set_true_if (cek_education t name_lower) ''education''
         (set_true_if (cek_residential t name_lower) ''residential''
            no_categories))))))))))"


subsection \<open>Subtype labels (the decision chain of get\_nearby\_places\_detail)\<close>

datatype py_exception =
    KeyError string
  | ValueError string
  | ZeroDivisionError
  | Exception string

text \<open>\<open>sub in tags.get(k, "")\<close> and \<open>sub in name.lower()\<close>.\<close>

definition tag_has :: "tags \<Rightarrow> string \<Rightarrow> string \<Rightarrow> bool" where
  "tag_has t k sub = sublist sub (tag_get t k)"

definition name_has :: "string \<Rightarrow> string \<Rightarrow> bool" where
  "name_has name sub = sublist sub (lower name)"

definition type_residential :: "tags \<Rightarrow> string \<Rightarrow> string" where
  "type_residential t name =
     (if tag_in t ''building'' [''apartments'', ''dormitory''] then ''Apartment/Dormitory''
      else if t ''building'' = Some ''house'' then ''House''
      else if name_has name ''cluster'' \<or> name_has name ''villa'' then ''Cluster/Villa''
      else if name_has name ''perumahan'' then ''Housing Complex''
      else ''Residential Area'')"

definition type_education :: "tags \<Rightarrow> string \<Rightarrow> string" where
  "type_education t name =
     (if tag_has t ''amenity'' ''university'' \<or> name_has name ''universitas'' then ''University''
      else if tag_has t ''amenity'' ''school'' \<or>
              list_ex (name_has name) [''sd'', ''smp'', ''sma'', ''smk'', ''sekolah''] then ''School''
      else if tag_has t ''amenity'' ''kindergarten'' \<or>
              list_ex (name_has name) [''tk'', ''paud''] then ''Kindergarten''
      else if name_has name ''pesantren'' then ''Islamic Boarding School''
      else if name_has name ''kursus'' \<or> name_has name ''course'' \<or> name_has name ''training''
        then ''Course/Training Center''
      else ''Educational Institution'')"

definition type_public_area :: "tags \<Rightarrow> string \<Rightarrow> string" where
  "type_public_area t name =
     (if tag_has t ''amenity'' ''hospital'' \<or> name_has name ''rumah sakit'' \<or> name_has name ''rs''
        then ''Hospital''
      else if tag_has t ''amenity'' ''clinic'' \<or> name_has name ''klinik'' \<or>
              name_has name ''puskesmas'' then ''Clinic''
      else if tag_has t ''leisure'' ''park'' \<or> name_has name ''taman'' then ''Park''
      else if tag_has t ''amenity'' ''place_of_worship'' \<or>
              list_ex (name_has name) [''masjid'', ''gereja'', ''pura'', ''vihara'', ''klenteng'']
        then ''Place of Worship''
      else if tag_has t ''tourism'' ''museum'' \<or> name_has name ''museum'' then ''Museum''
      else if tag_has t ''amenity'' ''bus_station'' \<or> name_has name ''terminal''
        then ''Bus Station/Terminal''
      else if tag_has t ''public_transport'' ''station'' \<or> name_has name ''stasiun''
        then ''Train/Metro Station''
      else if tag_has t ''aeroway'' ''terminal'' \<or> name_has name ''bandara'' \<or>
              name_has name ''airport'' then ''Airport''
      else ''Public Facility'')"

definition type_culinary :: "tags \<Rightarrow> string \<Rightarrow> string" where
  "type_culinary t name =
     (if tag_has t ''amenity'' ''restaurant'' \<or> name_has name ''restoran'' then ''Restaurant''
      else if tag_has t ''amenity'' ''cafe'' \<or> name_has name ''cafe'' \<or> name_has name ''kafe''
        then ''Cafe''
      else if tag_has t ''amenity'' ''food_court'' \<or> name_has name ''food court''
        then ''Food Court''
      else if tag_has t ''amenity'' ''fast_food'' \<or> name_has name ''fast food'' then ''Fast Food''
      else if name_has name ''warmindo'' then ''Warmindo''
      else if name_has name ''warung'' \<or> name_has name ''warteg'' then ''Warung''
      else if name_has name ''kedai'' then ''Kedai''
      else if tag_has t ''shop'' ''bakery'' \<or> name_has name ''bakery'' \<or> name_has name ''roti''
        then ''Bakery''
      else if tag_has t ''shop'' ''coffee'' \<or> name_has name ''kopi'' then ''Coffee Shop''
      else if list_ex (name_has name)
                [''ayam'', ''chicken'', ''bakso'', ''mie'', ''nasi'', ''soto'', ''pecel'']
        then ''Food Stall''
      else ''Food & Beverage'')"

definition type_business_center :: "tags \<Rightarrow> string \<Rightarrow> string" where
  "type_business_center t name =
     (if tag_has t ''building'' ''office'' \<or> name_has name ''perkantoran'' then ''Office Building''
      else if name_has name ''ruko'' then ''Shophouse''
      else if name_has name ''coworking'' then ''Coworking Space''
      else if tag_has t ''landuse'' ''industrial'' \<or> name_has name ''kawasan industri''
        then ''Industrial Area''
      else if tag_has t ''shop'' ''supermarket'' \<or> name_has name ''supermarket''
        then ''Supermarket''
      else if tag_has t ''shop'' ''mall'' \<or> name_has name ''mall'' \<or> name_has name ''plaza''
        then ''Shopping Mall''
      else if tag_has t ''amenity'' ''marketplace'' \<or> name_has name ''pasar'' \<or>
              name_has name ''market'' then ''Market''
      else if tag_has t ''shop'' ''convenience'' \<or> name_has name ''alfamart'' \<or>
              name_has name ''indomaret'' then ''Convenience Store''
      else if has_key t ''shop'' then ''Shop''
      else ''Commercial Area'')"

definition type_groceries :: "tags \<Rightarrow> string \<Rightarrow> string" where
  "type_groceries t name =
     (if tag_has t ''shop'' ''supermarket'' \<or> name_has name ''supermarket'' then ''Supermarket''
      else if tag_has t ''shop'' ''grocery'' \<or> name_has name ''grocery'' \<or>
              name_has name ''sembako'' then ''Grocery Store''
      else if tag_has t ''shop'' ''greengrocer'' \<or> name_has name ''sayur'' \<or>
              name_has name ''buah'' then ''Greengrocer/Fruit Shop''
      else if tag_has t ''shop'' ''butcher'' \<or> name_has name ''daging'' \<or> name_has name ''meat''
        then ''Butcher Shop''
      else if tag_has t ''shop'' ''seafood'' \<or> name_has name ''seafood'' then ''Seafood Shop''
      else if tag_has t ''amenity'' ''marketplace'' \<or> name_has name ''pasar'' \<or>
              name_has name ''market'' then ''Traditional Market''
      else if tag_has t ''shop'' ''bakery'' \<or> name_has name ''bakery'' \<or> name_has name ''roti''
        then ''Bakery''
      else if name_has name ''kelontong'' then ''Small Grocery''
      else ''Grocery Store'')"

definition type_convenient_stores :: "tags \<Rightarrow> string \<Rightarrow> string" where
  "type_convenient_stores t name =
     (if name_has name ''indomaret'' then ''Indomaret''
      else if name_has name ''alfamart'' \<or> name_has name ''alfamidi'' \<or> name_has name ''alfa''
        then ''Alfamart/Alfamidi''
      else if name_has name ''circle k'' then ''Circle K''
      else if name_has name ''family mart'' then ''Family Mart''
      else if name_has name ''lawson'' then ''Lawson''
      else if name_has name ''7-eleven'' \<or> name_has name ''7 eleven'' \<or>
              name_has name ''seven eleven'' then ''7-Eleven''
      else if name_has name ''minimart'' \<or> name_has name ''mini mart'' \<or>
              name_has name ''mini market'' then ''Mini Market''
      else if tag_has t ''shop'' ''convenience'' \<or> name_has name ''convenience''
        then ''Convenience Store''
      else if tag_has t ''shop'' ''kiosk'' \<or> name_has name ''kios'' \<or> name_has name ''warung''
        then ''Kiosk/Small Shop''
      else ''Convenience Store'')"

definition type_industrial :: "tags \<Rightarrow> string \<Rightarrow> string" where
  "type_industrial t name =
     (if tag_has t ''building'' ''factory'' \<or> name_has name ''pabrik'' \<or> name_has name ''factory''
        then ''Factory''
      else if tag_has t ''building'' ''warehouse'' \<or> name_has name ''gudang'' \<or>
              name_has name ''warehouse'' then ''Warehouse''
      else if tag_has t ''landuse'' ''industrial'' \<or> name_has name ''kawasan industri'' \<or>
              name_has name ''industrial'' then ''Industrial Area''
      else if tag_has t ''industrial'' ''workshop'' \<or> name_has name ''bengkel'' \<or>
              name_has name ''workshop'' then ''Workshop''
      else if tag_has t ''building'' ''manufacturing'' \<or> name_has name ''manufacturing'' \<or>
              name_has name ''manufaktur'' then ''Manufacturing Facility''
      else ''Industrial Facility'')"

definition type_hospital_clinic :: "tags \<Rightarrow> string \<Rightarrow> string" where
  "type_hospital_clinic t name =
     (if tag_has t ''amenity'' ''hospital'' \<or> name_has name ''rumah sakit'' \<or>
         name_has name ''hospital'' \<or> name_has name ''rs'' then ''Hospital''
      else if tag_has t ''amenity'' ''clinic'' \<or> name_has name ''klinik'' \<or>
              name_has name ''clinic'' then ''Clinic''
      else if tag_has t ''amenity'' ''doctors'' \<or> name_has name ''dokter'' \<or>
              name_has name ''doctor'' then ''Doctor's Office''
      else if tag_has t ''amenity'' ''pharmacy'' \<or> name_has name ''apotek'' \<or>
              name_has name ''apotik'' \<or> name_has name ''pharmacy'' then ''Pharmacy''
      else if tag_has t ''amenity'' ''dentist'' \<or> name_has name ''gigi'' \<or>
              name_has name ''dental'' then ''Dental Clinic''
      else if name_has name ''puskesmas'' \<or> name_has name ''health center'' \<or>
              name_has name ''health centre'' then ''Community Health Center''
      else if name_has name ''laboratory'' \<or> name_has name ''lab'' \<or>
              name_has name ''laboratorium'' then ''Medical Laboratory''
      else ''Healthcare Facility'')"

text \<open>\<open>place_type\<close> starts as \<open>"Unknown"\<close> and is set by the branch of the category.\<close>

definition place_type :: "string \<Rightarrow> tags \<Rightarrow> string \<Rightarrow> string" where
  "place_type category t name =
     (if category = ''residential'' then type_residential t name
      else if category = ''education'' then type_education t name
      else if category = ''public_area'' then type_public_area t name
      else if category = ''culinary'' then type_culinary t name
      else if category = ''business_center'' then type_business_center t name
      else if category = ''groceries'' then type_groceries t name
      else if category = ''convenient_stores'' then type_convenient_stores t name
      else if category = ''industrial'' then type_industrial t name
      else if category = ''hospital_clinic'' then type_hospital_clinic t name
      else ''Unknown'')"

text \<open>The body of the element loop of \<open>get_nearby_places_detail\<close>, without the
  coordinates of the place: the name is the \<open>name\<close> tag, the element counts when
  \<open>element_categories[category]\<close> is true (a \<open>KeyError\<close> for a key that is not a
  category), and the record appended carries the name (\<open>"Unnamed"\<close> for an empty one),
  the subtype label and the tags.\<close>

record place =
  place_name :: string
  place_type_label :: string
  place_tags :: tags

definition place_of_element :: "string \<Rightarrow> tags \<Rightarrow> py_exception + place option" where
  "place_of_element category t =
     (let name = tag_get t ''name''
      in case analyze_element_for_categories t name category of
           None \<Rightarrow> Inl (KeyError category)
         | Some b \<Rightarrow>
             if b then
               Inr (Some \<lparr>place_name = (if name \<noteq> [] then name else ''Unnamed''),
                          place_type_label = place_type category t name,
                          place_tags = t\<rparr>)
             else Inr None)"

section \<open>Coordinate parser (data\_loader.py)\<close>

text \<open>\<open>str.strip()\<close>, \<open>str.split(sep)\<close> for a separator of one character, and
  \<open>str.split()\<close>, which cuts at runs of white space and returns no empty token.\<close>

definition strip :: "string \<Rightarrow> string" where
  "strip s = rev (dropWhile isspace (rev (dropWhile isspace s)))"

fun split_on :: "char \<Rightarrow> string \<Rightarrow> string list" where
  "split_on sep [] = [[]]"
| "split_on sep (c # cs) =
     (if c = sep then [] # split_on sep cs
      else (c # hd (split_on sep cs)) # tl (split_on sep cs))"

function split_ws :: "string \<Rightarrow> string list" where
  "split_ws s =
     (let s' = dropWhile isspace s
      in if s' = [] then []
         else takeWhile (\<lambda>c. \<not> isspace c) s' # split_ws (dropWhile (\<lambda>c. \<not> isspace c) s'))"
  by pat_completeness auto
termination
proof (relation "measure length")
  fix s s' :: string
  assume s': "s' = dropWhile isspace s" and ne: "s' \<noteq> []"
  have "length (dropWhile (\<lambda>c. \<not> isspace c) s') < length s'"
  proof (cases s')
    case Nil
    with ne show ?thesis by simp
  next
    case (Cons c cs)
    with s' have "\<not> isspace c" by (metis hd_dropWhile list.sel(1) ne)
    with Cons show ?thesis by (simp add: le_imp_less_Suc length_dropWhile_le)
  qed
  moreover have "length s' \<le> length s" by (simp add: s' length_dropWhile_le)
  ultimately show "(dropWhile (\<lambda>c. \<not> isspace c) s', s) \<in> measure length" by simp
qed simp

declare split_ws.simps [simp del]

text \<open>
  The builtin \<open>float\<close> is a parameter \<open>pyfloat\<close>: it returns the number, of a type
  \<open>'f\<close> that stays abstract, or the message of the \<open>ValueError\<close> it raises.
  \<open>parse_coordinates\<close> wraps every exception of its body in a \<open>ValueError\<close> whose
  message quotes \<open>coord_str\<close>, the variable that holds the stripped input by then.
\<close>

definition parse_error :: "string \<Rightarrow> string \<Rightarrow> py_exception" where
  "parse_error coord_str e =
     ValueError (''Error saat parsing koordinat '' @ [CHR 0x27] @ coord_str @ [CHR 0x27] @
                 '': '' @ e)"

definition coordinate_parts :: "string \<Rightarrow> string list" where
  "coordinate_parts coord_str =
     (if CHR '','' \<in> set coord_str then split_on CHR '','' coord_str else split_ws coord_str)"

definition parse_coordinates ::
  "(string \<Rightarrow> string + 'f) \<Rightarrow> string \<Rightarrow> py_exception + ('f \<times> 'f)" where
  "parse_coordinates pyfloat coord_str0 =
     (let coord_str = strip coord_str0;
          parts = coordinate_parts coord_str
      in if length parts \<noteq> 2
         then Inl (parse_error coord_str (''Format koordinat tidak valid: '' @ coord_str))
         else case pyfloat (strip (parts ! 0)) of
                Inl e \<Rightarrow> Inl (parse_error coord_str e)
              | Inr latitude \<Rightarrow>
                  (case pyfloat (strip (parts ! 1)) of
                     Inl e \<Rightarrow> Inl (parse_error coord_str e)
                   | Inr longitude \<Rightarrow> Inr (latitude, longitude)))"

text \<open>A stand-in for \<open>float\<close> on concrete inputs: it knows the strings of a table and
  rejects every other one.\<close>

definition table_float :: "(string \<times> rat) list \<Rightarrow> string \<Rightarrow> string + rat" where
  "table_float tab s =
     (case map_of tab s of
        None \<Rightarrow> Inl (''could not convert string to float: '' @ s)
      | Some x \<Rightarrow> Inr x)"

definition coords_tab :: "(string \<times> rat) list" where
  "coords_tab =
     [(''-7.78'', -778/100), (''110.37'', 11037/100), (''91.5'', 915/10), (''200'', 200),
      (''1'', 1), (''2'', 2)]"

section \<open>Geo-query client (api\_handler.py)\<close>

text \<open>
  What one POST to an endpoint does: \<open>requests.post\<close> raises, or it returns a response
  with a status code and a body on which \<open>response.json()\<close> returns a value of type
  \<open>'j\<close> or raises (\<open>None\<close>).  The network is a function \<open>post\<close> from the endpoint
  and the query to that outcome.  The random delay before each request has no effect
  on the result and is left out.
\<close>

datatype 'j http_result =
    Transport_Exception string
  | Response nat "'j option"

text \<open>What the \<open>try\<close> block of one endpoint leaves: the value it returns, or \<open>None\<close>
  when the loop goes on (a status other than 200, or an exception of \<open>requests.post\<close>
  or of \<open>response.json()\<close>, all caught by \<open>except Exception\<close>).\<close>

fun answer :: "'j http_result \<Rightarrow> 'j option" where
  "answer (Transport_Exception e) = None"
| "answer (Response status_code body) = (if status_code = 200 then body else None)"

fun call_overpass_api :: "(string \<Rightarrow> 'q \<Rightarrow> 'j http_result) \<Rightarrow> string list \<Rightarrow> 'q \<Rightarrow> 'j option" where
  "call_overpass_api post [] query = None"
| "call_overpass_api post (endpoint # endpoints) query =
     (case answer (post endpoint query) of
        Some json \<Rightarrow> Some json
      | None \<Rightarrow> call_overpass_api post endpoints query)"

text \<open>The status code of a response, for the statement of the claim about the first
  endpoint that answers with 200.\<close>

fun answers_200 :: "'j http_result \<Rightarrow> bool" where
  "answers_200 (Transport_Exception e) = False"
| "answers_200 (Response status_code body) = (status_code = 200)"

subsection \<open>check\_nearby\_facilities\_simple\<close>

text \<open>
  The settings of config.py that the facility check reads.  The text of a query is
  determined by the template set, the category, the radius and the coordinates, and
  is modelled by these; the combined query is determined by radius and coordinates.
  A parsed body is the list of the tag bags of its elements (\<open>element.get("tags", {})\<close>):
  an Overpass response object, which is never empty, so that \<open>if data\<close> asks whether
  the call returned \<open>None\<close>.  The cache maps the key built from latitude, longitude and
  radius to the stored result; writing the cache to disk is left out.
\<close>

record config =
  OVERPASS_ENDPOINTS :: "string list"
  ENABLE_CACHE :: bool
  USE_SIMPLIFIED_QUERIES :: bool

datatype 'f query =
    Category_Query bool string nat 'f 'f
  | All_Categories_Query nat 'f 'f

type_synonym 'f network = "string \<Rightarrow> 'f query \<Rightarrow> tags list http_result"

type_synonym 'f api_cache = "('f \<times> 'f \<times> nat) \<rightharpoonup> (string \<rightharpoonup> bool)"

text \<open>\<open>for category in results: if element_categories[category]: results[category] = True\<close>\<close>

definition merge_categories :: "(string \<rightharpoonup> bool) \<Rightarrow> (string \<rightharpoonup> bool) \<Rightarrow> (string \<rightharpoonup> bool)" where
  "merge_categories results element_categories =
     foldl (\<lambda>r category. if element_categories category = Some True then r(category \<mapsto> True) else r)
       results category_keys"

text \<open>The element loop of the combined query, which stops once every flag is set.\<close>

fun merge_elements :: "(string \<rightharpoonup> bool) \<Rightarrow> tags list \<Rightarrow> (string \<rightharpoonup> bool)" where
  "merge_elements results [] = results"
| "merge_elements results (t # elements) =
     (let results' = merge_categories results (analyze_element_for_categories t (tag_get t ''name''))
      in if list_all (\<lambda>category. results' category = Some True) category_keys then results'
         else merge_elements results' elements)"

text \<open>One round of the loop over the categories: the flag is set when some element of
  the answer counts for the category.\<close>

definition check_category ::
  "config \<Rightarrow> 'f network \<Rightarrow> 'f \<Rightarrow> 'f \<Rightarrow> nat \<Rightarrow> (string \<rightharpoonup> bool) \<Rightarrow> string \<Rightarrow> (string \<rightharpoonup> bool)" where
  "check_category cfg post lat lon radius results category =
     (case call_overpass_api post (OVERPASS_ENDPOINTS cfg)
             (Category_Query (USE_SIMPLIFIED_QUERIES cfg) category radius lat lon) of
        None \<Rightarrow> results
      | Some elements \<Rightarrow>
          if list_ex (\<lambda>t. analyze_element_for_categories t (tag_get t ''name'') category = Some True)
               elements
          then results(category \<mapsto> True) else results)"

definition store :: "config \<Rightarrow> 'f api_cache \<Rightarrow> 'f \<times> 'f \<times> nat \<Rightarrow> (string \<rightharpoonup> bool) \<Rightarrow> 'f api_cache" where
  "store cfg api_cache cache_key results =
     (if ENABLE_CACHE cfg then api_cache(cache_key \<mapsto> results) else api_cache)"

definition check_nearby_facilities_simple ::
  "config \<Rightarrow> 'f network \<Rightarrow> 'f api_cache \<Rightarrow> 'f \<Rightarrow> 'f \<Rightarrow> nat \<Rightarrow> (string \<rightharpoonup> bool) \<times> 'f api_cache" where
  "check_nearby_facilities_simple cfg post api_cache lat lon radius =
     (let cache_key = (lat, lon, radius);
          per_category = foldl (check_category cfg post lat lon radius) no_categories category_keys
      in case (if ENABLE_CACHE cfg then api_cache cache_key else None) of
           Some cached \<Rightarrow> (cached, api_cache)
         | None \<Rightarrow>
             if \<not> USE_SIMPLIFIED_QUERIES cfg then
               (case call_overpass_api post (OVERPASS_ENDPOINTS cfg)
                       (All_Categories_Query radius lat lon) of
                  Some elements \<Rightarrow>
                    (let results = merge_elements no_categories elements
                     in (results, store cfg api_cache cache_key results))
                | None \<Rightarrow> (per_category, store cfg api_cache cache_key per_category))
             else (per_category, store cfg api_cache cache_key per_category))"

section \<open>Batch orchestrator (facility\_analyzer.py)\<close>

record outlet =
  nama :: string
  koordinat :: string

text \<open>A result record: the dictionary with the keys \<open>Nama Outlet\<close>, \<open>Koordinat\<close>,
  \<open>Latitude\<close>, \<open>Longitude\<close>, the entries of the categories (read with
  \<open>result.get(category, False)\<close>) and the \<open>Error\<close> key that only the record of a
  permanent failure has.\<close>

record 'f outlet_result =
  Nama_Outlet :: string
  Koordinat :: string
  Latitude :: 'f
  Longitude :: 'f
  flags :: "string \<rightharpoonup> bool"
  Error :: "string option"

definition categories :: "string list" where
  "categories =
     [''Residential'', ''Education'', ''Public Area'', ''Culinary'', ''Business Center'',
      ''Groceries'', ''Convenient Stores'', ''Industrial'', ''Hospital/Clinic'']"

text \<open>\<open>result.get(category, False)\<close>\<close>

definition flag :: "'f outlet_result \<Rightarrow> string \<Rightarrow> bool" where
  "flag result category = (case flags result category of None \<Rightarrow> False | Some b \<Rightarrow> b)"

text \<open>The nine entries of the success record, \<open>'Residential': nearby_facilities['residential']\<close>
  and so on in this order; a key missing from \<open>nearby_facilities\<close> raises \<open>KeyError\<close>.\<close>

definition category_mapping :: "(string \<times> string) list" where
  "category_mapping =
     [(''Residential'', ''residential''), (''Education'', ''education''),
      (''Public Area'', ''public_area''), (''Culinary'', ''culinary''),
      (''Business Center'', ''business_center''), (''Groceries'', ''groceries''),
      (''Convenient Stores'', ''convenient_stores''), (''Industrial'', ''industrial''),
      (''Hospital/Clinic'', ''hospital_clinic'')]"

fun facility_entries ::
  "(string \<rightharpoonup> bool) \<Rightarrow> (string \<times> string) list \<Rightarrow> py_exception + (string \<times> bool) list" where
  "facility_entries nearby_facilities [] = Inr []"
| "facility_entries nearby_facilities ((display, key) # rest) =
     (case nearby_facilities key of
        None \<Rightarrow> Inl (KeyError key)
      | Some v \<Rightarrow>
          (case facility_entries nearby_facilities rest of
             Inl e \<Rightarrow> Inl e
           | Inr entries \<Rightarrow> Inr ((display, v) # entries)))"

text \<open>
  The facility check is a parameter of the retry loop: a function of a state \<open>'s\<close>
  (the cache, the network) that returns the flags or the exception it raises, and the
  new state.  \<open>run_check\<close> is the check of the source as such a function.
\<close>

type_synonym ('f, 's) facility_check =
  "'s \<Rightarrow> 'f \<Rightarrow> 'f \<Rightarrow> nat \<Rightarrow> (py_exception + (string \<rightharpoonup> bool)) \<times> 's"

definition run_check :: "config \<Rightarrow> 'f network \<Rightarrow> ('f, 'f api_cache) facility_check" where
  "run_check cfg post api_cache lat lon radius =
     (case check_nearby_facilities_simple cfg post api_cache lat lon radius of
        (results, api_cache') \<Rightarrow> (Inr results, api_cache'))"

text \<open>The body of the \<open>try\<close> block of one attempt.\<close>

definition attempt ::
  "(string \<Rightarrow> string + 'f) \<Rightarrow> ('f, 's) facility_check \<Rightarrow> outlet \<Rightarrow> nat \<Rightarrow> 's \<Rightarrow>
     (py_exception + 'f outlet_result) \<times> 's" where
  "attempt pyfloat check outlet radius s =
     (case parse_coordinates pyfloat (koordinat outlet) of
        Inl e \<Rightarrow> (Inl e, s)
      | Inr (lat, lon) \<Rightarrow>
          (case check s lat lon radius of
             (Inl e, s') \<Rightarrow> (Inl e, s')
           | (Inr nearby_facilities, s') \<Rightarrow>
               (case facility_entries nearby_facilities category_mapping of
                  Inl e \<Rightarrow> (Inl e, s')
                | Inr entries \<Rightarrow>
                    (Inr \<lparr>Nama_Outlet = nama outlet, Koordinat = koordinat outlet,
                          Latitude = lat, Longitude = lon,
                          flags = map_of entries, Error = None\<rparr>, s'))))"

text \<open>What follows the loop: the record of a permanent failure, or \<open>None\<close> when the
  coordinates do not parse here either.\<close>

definition failed_record :: "(string \<Rightarrow> string + 'f) \<Rightarrow> outlet \<Rightarrow> 'f outlet_result option" where
  "failed_record pyfloat outlet =
     (case parse_coordinates pyfloat (koordinat outlet) of
        Inl e \<Rightarrow> None
      | Inr (lat, lon) \<Rightarrow>
          Some \<lparr>Nama_Outlet = nama outlet, Koordinat = koordinat outlet,
                Latitude = lat, Longitude = lon,
                flags = map_of (map (\<lambda>category. (category, False)) categories),
                Error = Some ''Failed to process after multiple retries''\<rparr>)"

text \<open>
  The \<open>while\<close> loop, from a value of \<open>retries\<close> on.  The result is what the function
  returns, the number of attempts made (entries into the \<open>try\<close> block) and the state.
  The waiting time between attempts is left out.
\<close>

function retry_loop ::
  "(string \<Rightarrow> string + 'f) \<Rightarrow> ('f, 's) facility_check \<Rightarrow> outlet \<Rightarrow> nat \<Rightarrow> nat \<Rightarrow> nat \<Rightarrow> 's \<Rightarrow>
     'f outlet_result option \<times> nat \<times> 's" where
  "retry_loop pyfloat check outlet max_retries radius retries s =
     (if retries < max_retries then
        (case attempt pyfloat check outlet radius s of
           (Inr result, s') \<Rightarrow> (Some result, Suc retries, s')
         | (Inl e, s') \<Rightarrow> retry_loop pyfloat check outlet max_retries radius (Suc retries) s')
      else (failed_record pyfloat outlet, retries, s))"
  by pat_completeness auto
termination
  by (relation "measure (\<lambda>(pyfloat, check, outlet, max_retries, radius, retries, s).
        max_retries - retries)") auto

declare retry_loop.simps [simp del]

definition process_outlet_with_retry ::
  "(string \<Rightarrow> string + 'f) \<Rightarrow> ('f, 's) facility_check \<Rightarrow> outlet \<Rightarrow> nat \<Rightarrow> nat \<Rightarrow> 's \<Rightarrow>
     'f outlet_result option \<times> nat \<times> 's" where
  "process_outlet_with_retry pyfloat check outlet max_retries radius s =
     retry_loop pyfloat check outlet max_retries radius 0 s"

text \<open>An outlet whose coordinate string \<open>parse_coordinates\<close> accepts.\<close>

definition parseable :: "(string \<Rightarrow> string + 'f) \<Rightarrow> outlet \<Rightarrow> bool" where
  "parseable pyfloat outlet = (\<not> isl (parse_coordinates pyfloat (koordinat outlet)))"

subsection \<open>batch\_process\_outlets\<close>

definition DEFAULT_RADIUS :: nat where "DEFAULT_RADIUS = 100"
definition LARGER_RADIUS :: nat where "LARGER_RADIUS = 200"
definition BATCH_SIZE :: nat where "BATCH_SIZE = 1000"

text \<open>
  The workers of one batch run in a thread pool and their results are appended as they
  complete.  The model runs the workers one after the other, each on the state the one
  before left, in the order in which they complete; a result \<open>None\<close> is not appended.
  Each worker is \<open>process_outlet_with_retry\<close> with \<open>max_retries\<close> at its default 2.
\<close>

type_synonym ('r, 's) worker = "'s \<Rightarrow> outlet \<Rightarrow> 'r option \<times> 's"

definition worker ::
  "(string \<Rightarrow> string + 'f) \<Rightarrow> ('f, 's) facility_check \<Rightarrow> nat \<Rightarrow> ('f outlet_result, 's) worker" where
  "worker pyfloat check radius s outlet =
     (case process_outlet_with_retry pyfloat check outlet 2 radius s of
        (result, attempts, s') \<Rightarrow> (result, s'))"

fun run_workers :: "('r, 's) worker \<Rightarrow> outlet list \<Rightarrow> 's \<Rightarrow> 'r list \<times> 's" where
  "run_workers w [] s = ([], s)"
| "run_workers w (outlet # rest) s =
     (case w s outlet of
        (result, s') \<Rightarrow>
          (case run_workers w rest s' of
             (batch_results, s'') \<Rightarrow>
               ((case result of None \<Rightarrow> batch_results | Some r \<Rightarrow> r # batch_results), s'')))"

text \<open>
  One round of the loop over the batches.  \<open>completion i batch\<close> is the order in which
  the workers of batch \<open>i\<close> complete, and \<open>disk_ok i\<close> says whether the progress file
  can be written after batch \<open>i\<close> (a failed write is logged and leaves the file as it
  was).  The accumulator holds \<open>all_results\<close>, the content this run has written to the
  progress file, if any, and the state.
\<close>

definition batch_step ::
  "(nat \<Rightarrow> outlet list \<Rightarrow> outlet list) \<Rightarrow> (nat \<Rightarrow> bool) \<Rightarrow> ('r, 's) worker \<Rightarrow> nat \<Rightarrow> outlet list \<Rightarrow>
     'r list \<times> 'r list option \<times> 's \<Rightarrow> nat \<Rightarrow> 'r list \<times> 'r list option \<times> 's" where
  "batch_step completion disk_ok w batch_size outlets acc i =
     (case acc of
        (all_results, progress_file, s) \<Rightarrow>
          (let total_outlets = length outlets;
               start_idx = i * batch_size;
               end_idx = min ((i + 1) * batch_size) total_outlets;
               batch = take (end_idx - start_idx) (drop start_idx outlets)
           in case run_workers w (completion i batch) s of
                (batch_results, s') \<Rightarrow>
                  (let all_results' = all_results @ batch_results
                   in (all_results',
                       if disk_ok i then Some all_results' else progress_file, s'))))"

definition batch_loop ::
  "(nat \<Rightarrow> outlet list \<Rightarrow> outlet list) \<Rightarrow> (nat \<Rightarrow> bool) \<Rightarrow> ('r, 's) worker \<Rightarrow> outlet list \<Rightarrow> nat \<Rightarrow> 's \<Rightarrow>
     py_exception + 'r list \<times> 'r list option \<times> 's" where
  "batch_loop completion disk_ok w outlets batch_size s =
     (if batch_size = 0 then Inl ZeroDivisionError
      else
        (let total_outlets = length outlets;
             num_batches = (total_outlets + batch_size - 1) div batch_size
         in Inr (foldl (batch_step completion disk_ok w batch_size outlets) ([], None, s)
                   [0..<num_batches])))"

definition batch_process_outlets ::
  "(string \<Rightarrow> string + 'f) \<Rightarrow> ('f, 's) facility_check \<Rightarrow>
   (nat \<Rightarrow> outlet list \<Rightarrow> outlet list) \<Rightarrow> (nat \<Rightarrow> bool) \<Rightarrow> outlet list \<Rightarrow> nat \<Rightarrow> nat \<Rightarrow> 's \<Rightarrow>
     py_exception + 'f outlet_result list \<times> 'f outlet_result list option \<times> 's" where
  "batch_process_outlets pyfloat check completion disk_ok outlets batch_size radius s =
     batch_loop completion disk_ok (worker pyfloat check radius) outlets batch_size s"

subsection \<open>get\_remaining\_outlets\<close>

definition get_remaining_outlets :: "outlet list \<Rightarrow> 'f outlet_result list \<Rightarrow> outlet list" where
  "get_remaining_outlets outlets existing_results =
     (if existing_results = [] then outlets
      else
        (let processed_names = set (map Nama_Outlet existing_results)
         in filter (\<lambda>outlet. nama outlet \<notin> processed_names) outlets))"

subsection \<open>increase\_detection\_radius\<close>

text \<open>\<open>not any(result.get(category, False) for category in categories)\<close>\<close>

definition without_facilities :: "'f outlet_result \<Rightarrow> bool" where
  "without_facilities result = (\<not> list_ex (flag result) categories)"

text \<open>The second batch run uses the default batch size; its results are written over
  the entries at the collected indices, pair by pair (\<open>zip\<close>).  A result record is a
  non-empty dictionary, so \<open>if updated_result\<close> holds.\<close>

definition increase_detection_radius ::
  "(string \<Rightarrow> string + 'f) \<Rightarrow> ('f, 's) facility_check \<Rightarrow>
   (nat \<Rightarrow> outlet list \<Rightarrow> outlet list) \<Rightarrow> (nat \<Rightarrow> bool) \<Rightarrow> 'f outlet_result list \<Rightarrow> nat \<Rightarrow> 's \<Rightarrow>
     py_exception + 'f outlet_result list \<times> 's" where
  "increase_detection_radius pyfloat check completion disk_ok results new_radius s =
     (let indices_without_facilities =
            filter (\<lambda>i. without_facilities (results ! i)) [0..<length results];
          outlets_without_facilities =
            map (\<lambda>i. \<lparr>nama = Nama_Outlet (results ! i), koordinat = Koordinat (results ! i)\<rparr>)
              indices_without_facilities
      in if outlets_without_facilities = [] then Inr (results, s)
         else
           (case batch_process_outlets pyfloat check completion disk_ok
                   outlets_without_facilities BATCH_SIZE new_radius s of
              Inl e \<Rightarrow> Inl e
            | Inr (updated_results, progress_file, s') \<Rightarrow>
                Inr (foldl (\<lambda>res (i, updated_result). res[i := updated_result]) results
                       (zip indices_without_facilities updated_results), s')))"

subsection \<open>generate\_summary\_report\<close>

text \<open>
  The percentage is \<open>(count / total_outlets) * 100\<close>, which Python computes in doubles.
  The two operations are parameters with values in a type \<open>'p\<close> that stays abstract:
  \<open>truediv count total_outlets\<close> is the true division of two integers and
  \<open>mul x 100\<close> the product of a double and an integer.  The division is reached only
  for a non-empty result list, so its divisor is not zero.
\<close>

record 'p summary =
  total_outlets :: nat
  category_stats :: "string \<rightharpoonup> nat \<times> 'p"
  max_facilities :: nat
  best_outlets :: "string list"





section \<open>Example data\<close>

text \<open>Two networks for the geo-query client: on the first, endpoint \<open>e1\<close> answers 200
  with a body that is not JSON and \<open>e2\<close> answers 200 with the body \<open>2\<close>; on the second,
  \<open>e1\<close> answers 503, \<open>e2\<close> times out and \<open>e3\<close> answers 200 with the body \<open>3\<close>.\<close>

definition net2 :: "string \<Rightarrow> unit \<Rightarrow> nat http_result" where
  "net2 endpoint q =
     (if endpoint = ''e1'' then Response 200 None
      else if endpoint = ''e2'' then Response 200 (Some 2)
      else Transport_Exception ''unreachable'')"

definition net3 :: "string \<Rightarrow> unit \<Rightarrow> nat http_result" where
  "net3 endpoint q =
     (if endpoint = ''e1'' then Response 503 (Some 1)
      else if endpoint = ''e2'' then Transport_Exception ''timeout''
      else if endpoint = ''e3'' then Response 200 (Some 3)
      else Response 200 (Some 4))"

text \<open>Result records with the flags of the listed categories set, and three outlets.
  For the report on them, the operations on doubles are kept as terms: \<open>TrueDiv a b\<close>
  stands for the double \<open>a / b\<close> and \<open>Times x n\<close> for the double \<open>x * n\<close>.\<close>

datatype double_term =
    TrueDiv nat nat
  | Times double_term nat

definition plain_result :: "string \<Rightarrow> string \<Rightarrow> rat \<Rightarrow> rat \<Rightarrow> string list \<Rightarrow> rat outlet_result" where
  "plain_result name coord lat lon present =
     \<lparr>Nama_Outlet = name, Koordinat = coord, Latitude = lat, Longitude = lon,
      flags = map_of (map (\<lambda>category. (category, category \<in> set present)) categories),
      Error = None\<rparr>"

definition three_results :: "rat outlet_result list" where
  "three_results =
     [plain_result ''A'' ''1, 1'' 1 1 [''Culinary'', ''Education''],
      plain_result ''B'' ''2, 2'' 2 2 [],
      plain_result ''C'' ''1, 2'' 1 2 [''Residential'', ''Culinary'']]"

definition three_outlets :: "outlet list" where
  "three_outlets =
     [\<lparr>nama = ''A'', koordinat = ''1, 1''\<rparr>, \<lparr>nama = ''B'', koordinat = ''2, 2''\<rparr>,
      \<lparr>nama = ''C'', koordinat = ''1, 2''\<rparr>]"

text \<open>A configuration with three endpoints, a network on which every request fails, and
  a facility check that raises on every call.\<close>

definition example_config :: config where
  "example_config =
     \<lparr>OVERPASS_ENDPOINTS = [''e1'', ''e2'', ''e3''], ENABLE_CACHE = True,
      USE_SIMPLIFIED_QUERIES = True\<rparr>"

definition unreachable :: "rat network" where
  "unreachable endpoint query = Transport_Exception ''connection refused''"

definition always_raises :: "(rat, unit) facility_check" where
  "always_raises s lat lon radius = (Inl (Exception ''facility check failed''), s)"

text \<open>Three outlets, the second with a coordinate string that does not parse.\<close>

definition mixed_outlets :: "outlet list" where
  "mixed_outlets =
     [\<lparr>nama = ''A'', koordinat = ''1, 1''\<rparr>, \<lparr>nama = ''X'', koordinat = ''not a coordinate''\<rparr>,
      \<lparr>nama = ''B'', koordinat = ''2, 2''\<rparr>]"

section \<open>Properties of the classifier\<close>

lemma dom_set_true_if: "key \<in> dom result \<Longrightarrow> dom (set_true_if c key result) = dom result"
  by (auto simp: set_true_if_def)

lemma dom_no_categories: "dom no_categories = set category_keys"
  by (auto simp: no_categories_def category_keys_def)

text \<open>
  Claim C10.  For every tag bag and every name (the empty one too), the dictionary
  returned by \<open>analyze_element_for_categories\<close> has exactly the nine category keys;
  its values are booleans by type.  No call adds, removes or renames a key.
\<close>

theorem analyze_element_keys:
  "dom (analyze_element_for_categories t name) = set category_keys"
  unfolding analyze_element_for_categories_def Let_def
  by (simp add: dom_set_true_if dom_no_categories category_keys_def)

text \<open>
  Claim C3.  The feature with the tag bag \<open>{amenity: restaurant}\<close> and the name
  \<open>Warung Bu Tutik\<close> is classified as culinary and as nothing else (the flags are
  listed in the order of \<open>category_keys\<close>), and its subtype label in the culinary
  category is \<open>Restaurant\<close>; the same holds when the name is carried as the \<open>name\<close>
  tag of the element, as the detail query reads it.
\<close>

theorem warung_bu_tutik_culinary:
  "map (analyze_element_for_categories [''amenity'' \<mapsto> ''restaurant''] ''Warung Bu Tutik'')
       category_keys
     = [Some False, Some False, Some False, Some True, Some False,
        Some False, Some False, Some False, Some False]
   \<and> place_type ''culinary'' [''amenity'' \<mapsto> ''restaurant''] ''Warung Bu Tutik'' = ''Restaurant''
   \<and> place_of_element ''culinary''
        [''amenity'' \<mapsto> ''restaurant'', ''name'' \<mapsto> ''Warung Bu Tutik'']
     = Inr (Some \<lparr>place_name = ''Warung Bu Tutik'', place_type_label = ''Restaurant'',
                  place_tags = [''amenity'' \<mapsto> ''restaurant'', ''name'' \<mapsto> ''Warung Bu Tutik'']\<rparr>)"
proof -
  let ?t = "[''amenity'' \<mapsto> ''restaurant'', ''name'' \<mapsto> ''Warung Bu Tutik'']"
  have flags:
    "map (analyze_element_for_categories [''amenity'' \<mapsto> ''restaurant''] ''Warung Bu Tutik'')
       category_keys
     = [Some False, Some False, Some False, Some True, Some False,
        Some False, Some False, Some False, Some False]"
    by code_simp
  have label: "place_type ''culinary'' [''amenity'' \<mapsto> ''restaurant''] ''Warung Bu Tutik''
      = ''Restaurant''"
    by code_simp
  have name: "tag_get ?t ''name'' = ''Warung Bu Tutik''"
    by (simp add: tag_get_def)
  have counted: "analyze_element_for_categories ?t ''Warung Bu Tutik'' ''culinary'' = Some True"
    by code_simp
  have label': "place_type ''culinary'' ?t ''Warung Bu Tutik'' = ''Restaurant''"
    by code_simp
  have "place_of_element ''culinary'' ?t
     = Inr (Some \<lparr>place_name = ''Warung Bu Tutik'', place_type_label = ''Restaurant'',
                  place_tags = ?t\<rparr>)"
    unfolding place_of_element_def Let_def name counted label' by simp
  with flags label show ?thesis by blast
qed

section \<open>Properties of the coordinate parser\<close>

lemma comma_not_space: "\<not> isspace CHR '',''"
  by (simp add: isspace_def)

lemma dropWhile_id: "xs \<noteq> [] \<Longrightarrow> \<not> P (hd xs) \<Longrightarrow> dropWhile P xs = xs"
  by (cases xs) auto

lemma strip_sandwich:
  assumes l: "\<forall>c\<in>set l. isspace c" and r: "\<forall>c\<in>set r. isspace c"
    and m: "m \<noteq> []" "\<not> isspace (hd m)" "\<not> isspace (last m)"
  shows "strip (l @ m @ r) = m"
proof -
  have "dropWhile isspace (l @ m @ r) = dropWhile isspace (m @ r)"
    using l by (simp add: dropWhile_append2)
  also have "\<dots> = m @ r"
    using m by (intro dropWhile_id) simp_all
  finally have 1: "dropWhile isspace (l @ m @ r) = m @ r" .
  have "dropWhile isspace (rev r @ rev m) = dropWhile isspace (rev m)"
    by (rule dropWhile_append2) (use r in auto)
  also have "\<dots> = rev m"
    using m by (intro dropWhile_id) (simp_all add: hd_rev)
  finally have 2: "dropWhile isspace (rev r @ rev m) = rev m" .
  show ?thesis by (simp add: strip_def 1 2)
qed

lemma split_on_single: "sep \<notin> set a \<Longrightarrow> split_on sep a = [a]"
  by (induction a) auto

lemma split_on_append: "sep \<notin> set a \<Longrightarrow> split_on sep (a @ sep # rest) = a # split_on sep rest"
  by (induction a) auto

lemma split_ws_spaces: "\<forall>c\<in>set w. isspace c \<Longrightarrow> split_ws w = []"
  by (subst split_ws.simps) (simp add: dropWhile_eq_Nil_conv)

lemma split_ws_token:
  assumes w: "\<forall>c\<in>set w. isspace c" and a: "a \<noteq> []" "\<forall>c\<in>set a. \<not> isspace c"
    and rest: "rest = [] \<or> isspace (hd rest)"
  shows "split_ws (w @ a @ rest) = a # split_ws rest"
proof -
  have d: "dropWhile isspace (w @ a @ rest) = a @ rest"
    using w a by (cases a) (simp_all add: dropWhile_append2)
  have t: "takeWhile (\<lambda>c. \<not> isspace c) (a @ rest) = a"
    using a rest by (cases rest) (simp_all add: takeWhile_append2)
  have e: "dropWhile (\<lambda>c. \<not> isspace c) (a @ rest) = rest"
    using a rest by (cases rest) (simp_all add: dropWhile_append2)
  show ?thesis
    by (subst split_ws.simps) (simp add: d t e a Let_def)
qed

lemma token_ends:
  assumes "a \<noteq> []" "\<forall>c\<in>set a. \<not> isspace c \<and> c \<noteq> CHR '',''"
  shows "\<not> isspace (hd a)" "\<not> isspace (last a)" "CHR '','' \<notin> set a" "\<forall>c\<in>set a. \<not> isspace c"
  using assms by (auto simp: hd_in_set last_in_set)

text \<open>
  Claim C5.  Two tokens \<open>a\<close> and \<open>b\<close> that \<open>float\<close> accepts (non-empty, free of white
  space and of commas) parse to the same pair of numbers whether a comma or white
  space separates them, with any white space around the tokens.
\<close>

theorem parse_coordinates_separator:
  assumes a: "a \<noteq> []" "\<forall>c\<in>set a. \<not> isspace c \<and> c \<noteq> CHR '',''"
    and b: "b \<noteq> []" "\<forall>c\<in>set b. \<not> isspace c \<and> c \<noteq> CHR '',''"
    and ws: "\<forall>c\<in>set (l @ w1 @ w2 @ r @ l' @ w3 @ r'). isspace c" "w3 \<noteq> []"
    and fl: "pyfloat a = Inr x" "pyfloat b = Inr y"
  shows "parse_coordinates pyfloat (l @ a @ w1 @ '','' @ w2 @ b @ r) = Inr (x, y)
       \<and> parse_coordinates pyfloat (l' @ a @ w3 @ b @ r') = Inr (x, y)"
proof -
  note ta = token_ends[OF a] and tb = token_ends[OF b]
  have nc: "\<And>w. \<forall>c\<in>set w. isspace c \<Longrightarrow> CHR '','' \<notin> set w"
    using comma_not_space by auto
  \<comment> \<open>the comma style\<close>
  let ?m = "a @ w1 @ CHR '','' # w2 @ b"
  have m: "?m \<noteq> []" "\<not> isspace (hd ?m)" "\<not> isspace (last ?m)"
    using a(1) b(1) ta tb by simp_all
  have s1: "strip (l @ a @ w1 @ CHR '','' # w2 @ b @ r) = ?m"
    using strip_sandwich[of l r ?m] ws m by simp
  have p1: "coordinate_parts ?m = [a @ w1, w2 @ b]"
  proof -
    have "split_on CHR '','' ((a @ w1) @ CHR '','' # (w2 @ b)) = (a @ w1) # split_on CHR '','' (w2 @ b)"
      using ta(3) nc[of w1] ws by (intro split_on_append) simp
    moreover have "split_on CHR '','' (w2 @ b) = [w2 @ b]"
      using tb(3) nc[of w2] ws by (intro split_on_single) simp
    ultimately show ?thesis by (simp add: coordinate_parts_def)
  qed
  have sa: "strip (a @ w1) = a"
    using strip_sandwich[of "[]" w1 a] ws a(1) ta by simp
  have sb: "strip (w2 @ b) = b"
    using strip_sandwich[of w2 "[]" b] ws b(1) tb by simp
  have c1: "parse_coordinates pyfloat (l @ a @ w1 @ '','' @ w2 @ b @ r) = Inr (x, y)"
    by (simp add: parse_coordinates_def Let_def s1 p1 sa sb fl)
  \<comment> \<open>the white-space style\<close>
  let ?n = "a @ w3 @ b"
  have n: "?n \<noteq> []" "\<not> isspace (hd ?n)" "\<not> isspace (last ?n)"
    using a(1) b(1) ta tb by simp_all
  have s2: "strip (l' @ a @ w3 @ b @ r') = ?n"
    using strip_sandwich[of l' r' ?n] ws n by simp
  have "CHR '','' \<notin> set ?n"
    using ta(3) tb(3) nc[of w3] ws by simp
  moreover have "split_ws ?n = [a, b]"
  proof -
    have "isspace (hd (w3 @ b))" using ws by (cases w3) auto
    then have "split_ws ([] @ a @ (w3 @ b)) = a # split_ws (w3 @ b)"
      using ta(4) a(1) by (intro split_ws_token) simp_all
    moreover have "split_ws (w3 @ b @ []) = b # split_ws []"
      using tb(4) b(1) ws by (intro split_ws_token) simp_all
    moreover have "split_ws [] = []" by (simp add: split_ws_spaces)
    ultimately show ?thesis by simp
  qed
  ultimately have p2: "coordinate_parts ?n = [a, b]"
    by (simp add: coordinate_parts_def)
  have sa': "strip a = a" using strip_sandwich[of "[]" "[]" a] a(1) ta by simp
  have sb': "strip b = b" using strip_sandwich[of "[]" "[]" b] b(1) tb by simp
  have c2: "parse_coordinates pyfloat (l' @ a @ w3 @ b @ r') = Inr (x, y)"
    by (simp add: parse_coordinates_def Let_def s2 p2 sa' sb' fl)
  from c1 c2 show ?thesis by blast
qed


text \<open>The separator example of the specification, with \<open>-7.78\<close> and \<open>110.37\<close> as exact
  rationals.\<close>

theorem parse_coordinates_separator_witness:
  "parse_coordinates (table_float coords_tab) ''-7.78, 110.37'' = Inr (-778/100, 11037/100)
   \<and> parse_coordinates (table_float coords_tab) ''-7.78 110.37'' = Inr (-778/100, 11037/100)"
proof -
  have 1: "''-7.78'' \<noteq> []" and 3: "''110.37'' \<noteq> []" and 6: "'' '' \<noteq> []" by simp_all
  have 2: "\<forall>c\<in>set ''-7.78''. \<not> isspace c \<and> c \<noteq> CHR '',''" by code_simp
  have 4: "\<forall>c\<in>set ''110.37''. \<not> isspace c \<and> c \<noteq> CHR '',''" by code_simp
  have 5: "\<forall>c\<in>set ([] @ [] @ '' '' @ [] @ [] @ '' '' @ []). isspace c" by code_simp
  have 7: "table_float coords_tab ''-7.78'' = Inr (-778/100)" by code_simp
  have 8: "table_float coords_tab ''110.37'' = Inr (11037/100)" by code_simp
  from parse_coordinates_separator[OF 1 2 3 4 5 6 7 8] show ?thesis by simp
qed

text \<open>
  Claim C6, as amended.  Parsing fails exactly when the split does not yield two
  tokens or \<open>float\<close> rejects one of them; the failure is a \<open>ValueError\<close> whose message
  quotes the input with the white space around it stripped; and two tokens that
  \<open>float\<close> accepts give their numbers whatever these are (there is no range check).
  The result type has no other outcome: no other exception leaves the function.
\<close>

theorem parse_coordinates_failure:
  "((\<exists>e. parse_coordinates pyfloat s = Inl e) \<longleftrightarrow>
      (length (coordinate_parts (strip s)) \<noteq> 2 \<or>
       isl (pyfloat (strip (coordinate_parts (strip s) ! 0))) \<or>
       isl (pyfloat (strip (coordinate_parts (strip s) ! 1)))))
   \<and> (\<forall>e. parse_coordinates pyfloat s = Inl e \<longrightarrow>
          (\<exists>msg. e = ValueError msg \<and> sublist (strip s) msg))
   \<and> (\<forall>a b x y. coordinate_parts (strip s) = [a, b] \<and> pyfloat (strip a) = Inr x \<and>
          pyfloat (strip b) = Inr y \<longrightarrow> parse_coordinates pyfloat s = Inr (x, y))"
proof -
  have carried: "\<And>e. \<exists>msg. parse_error (strip s) e = ValueError msg \<and> sublist (strip s) msg"
  proof -
    fix e
    have "sublist (strip s) (''Error saat parsing koordinat '' @ [CHR 0x27] @ strip s @ [CHR 0x27] @ '': '' @ e)"
      unfolding sublist_def
      by (rule exI[of _ "''Error saat parsing koordinat '' @ [CHR 0x27]"],
          rule exI[of _ "[CHR 0x27] @ '': '' @ e"]) simp
    then show "\<exists>msg. parse_error (strip s) e = ValueError msg \<and> sublist (strip s) msg"
      by (simp add: parse_error_def)
  qed
  have iff: "(\<exists>e. parse_coordinates pyfloat s = Inl e) \<longleftrightarrow>
      (length (coordinate_parts (strip s)) \<noteq> 2 \<or>
       isl (pyfloat (strip (coordinate_parts (strip s) ! 0))) \<or>
       isl (pyfloat (strip (coordinate_parts (strip s) ! 1))))"
    by (auto simp: parse_coordinates_def Let_def isl_def split: sum.splits)
  have err: "\<forall>e. parse_coordinates pyfloat s = Inl e \<longrightarrow>
          (\<exists>msg. e = ValueError msg \<and> sublist (strip s) msg)"
    using carried by (auto simp: parse_coordinates_def Let_def split: sum.splits if_splits)
  have ok: "\<forall>a b x y. coordinate_parts (strip s) = [a, b] \<and> pyfloat (strip a) = Inr x \<and>
          pyfloat (strip b) = Inr y \<longrightarrow> parse_coordinates pyfloat s = Inr (x, y)"
    by (simp add: parse_coordinates_def Let_def)
  from iff err ok show ?thesis by blast
qed

theorem parse_coordinates_failure_witness:
  "parse_coordinates (table_float coords_tab) ''91.5, 200'' = Inr (915/10, 200)
   \<and> (\<exists>msg. parse_coordinates (table_float coords_tab) '' abc '' = Inl (ValueError msg)
          \<and> sublist ''abc'' msg)"
proof -
  have p: "coordinate_parts (strip ''91.5, 200'') = [''91.5'', '' 200'']" by code_simp
  have a: "table_float coords_tab (strip ''91.5'') = Inr (915/10)" by code_simp
  have b: "table_float coords_tab (strip '' 200'') = Inr 200" by code_simp
  have n: "length (coordinate_parts (strip '' abc '')) \<noteq> 2" by code_simp
  have st: "strip '' abc '' = ''abc''" by code_simp
  note ok = parse_coordinates_failure[of "table_float coords_tab" "''91.5, 200''"]
  note bad = parse_coordinates_failure[of "table_float coords_tab" "'' abc ''"]
  have 1: "parse_coordinates (table_float coords_tab) ''91.5, 200'' = Inr (915/10, 200)"
    using ok p a b by blast
  from bad n obtain e where e: "parse_coordinates (table_float coords_tab) '' abc '' = Inl e"
    by blast
  with bad obtain msg where "e = ValueError msg" "sublist (strip '' abc '') msg" by blast
  with e st 1 show ?thesis by auto
qed

text \<open>The claim as stated fails on an input with white space around it: the message
  quotes \<open>abc\<close>, and the original input \<open>" abc "\<close> does not occur in it.\<close>

theorem parse_error_quotes_stripped_input:
  "parse_coordinates (table_float coords_tab) '' abc ''
     = Inl (ValueError ''Error saat parsing koordinat 'abc': Format koordinat tidak valid: abc'')
   \<and> \<not> sublist '' abc '' ''Error saat parsing koordinat 'abc': Format koordinat tidak valid: abc''"
  by code_simp


section \<open>Properties of the geo-query client\<close>

lemma call_none: "(\<forall>e\<in>set endpoints. answer (post e q) = None) \<Longrightarrow> call_overpass_api post endpoints q = None"
  by (induction endpoints) simp_all

lemma call_first:
  "(\<forall>e\<in>set pre. answer (post e q) = None) \<Longrightarrow> answer (post e q) = Some j \<Longrightarrow>
     call_overpass_api post (pre @ e # rest) q = Some j"
  by (induction pre) simp_all

lemma answer_None_iff:
  "answer r = None \<longleftrightarrow>
     (\<exists>e. r = Transport_Exception e) \<or>
     (\<exists>status_code body. r = Response status_code body \<and> status_code \<noteq> 200) \<or>
     r = Response 200 None"
  by (cases r) auto

text \<open>
  Claim C7, as amended.  The endpoints are tried in the order of the list.  An endpoint
  is passed over when the request raises, when the status is not 200, and also when
  the status is 200 but the body does not parse as JSON (third part).  The call returns
  the parsed body of the first endpoint that answers 200 with a body that parses
  (first part), and \<open>None\<close>, never an exception, when every endpoint is passed over
  (second part).
\<close>

theorem call_overpass_api_failover:
  "(\<forall>pre e rest j.
       endpoints = pre @ e # rest \<and> (\<forall>e'\<in>set pre. answer (post e' query) = None) \<and>
       post e query = Response 200 (Some j)
       \<longrightarrow> call_overpass_api post endpoints query = Some j)
   \<and> ((\<forall>e\<in>set endpoints. answer (post e query) = None)
       \<longrightarrow> call_overpass_api post endpoints query = None)
   \<and> (\<forall>r :: 'j http_result. answer r = None \<longleftrightarrow>
          (\<exists>e. r = Transport_Exception e) \<or>
          (\<exists>status_code body. r = Response status_code body \<and> status_code \<noteq> 200) \<or>
          r = Response 200 None)"
proof (intro conjI allI impI)
  fix pre e rest j
  assume h: "endpoints = pre @ e # rest \<and> (\<forall>e'\<in>set pre. answer (post e' query) = None) \<and>
       post e query = Response 200 (Some j)"
  then have "answer (post e query) = Some j" by simp
  with h show "call_overpass_api post endpoints query = Some j"
    by (simp add: call_first)
next
  assume "\<forall>e\<in>set endpoints. answer (post e query) = None"
  then show "call_overpass_api post endpoints query = None" by (rule call_none)
next
  fix r :: "'j http_result"
  show "answer r = None \<longleftrightarrow>
          (\<exists>e. r = Transport_Exception e) \<or>
          (\<exists>status_code body. r = Response status_code body \<and> status_code \<noteq> 200) \<or>
          r = Response 200 None"
    by (rule answer_None_iff)
qed


theorem call_overpass_api_failover_witness:
  "call_overpass_api net3 [''e1'', ''e2'', ''e3'', ''e4''] () = Some 3
   \<and> call_overpass_api net3 [''e1'', ''e2''] () = None"
proof -
  have a: "[''e1'', ''e2'', ''e3'', ''e4''] = [''e1'', ''e2''] @ ''e3'' # [''e4'']" by simp
  have b: "\<forall>e'\<in>set [''e1'', ''e2'']. answer (net3 e' ()) = None" by code_simp
  have c: "net3 ''e3'' () = Response 200 (Some 3)" by code_simp
  note t1 = call_overpass_api_failover[of "[''e1'', ''e2'', ''e3'', ''e4'']" net3 "()"]
  note t2 = call_overpass_api_failover[of "[''e1'', ''e2'']" net3 "()"]
  from t1 have "[''e1'', ''e2'', ''e3'', ''e4''] = [''e1'', ''e2''] @ ''e3'' # [''e4''] \<and>
       (\<forall>e'\<in>set [''e1'', ''e2'']. answer (net3 e' ()) = None) \<and>
       net3 ''e3'' () = Response 200 (Some 3)
       \<longrightarrow> call_overpass_api net3 [''e1'', ''e2'', ''e3'', ''e4''] () = Some 3"
    by (elim conjE allE)
  with a b c have 1: "call_overpass_api net3 [''e1'', ''e2'', ''e3'', ''e4''] () = Some 3"
    by (elim impE) (intro conjI, assumption+)
  from t2 have "(\<forall>e\<in>set [''e1'', ''e2'']. answer (net3 e ()) = None)
       \<longrightarrow> call_overpass_api net3 [''e1'', ''e2''] () = None"
    by (elim conjE)
  with b have 2: "call_overpass_api net3 [''e1'', ''e2''] () = None"
    by (elim impE)
  from 1 2 show ?thesis by (intro conjI)
qed


text \<open>The claim as stated fails when the first endpoint that answers 200 sends a body
  that is not JSON: \<open>response.json()\<close> raises inside the \<open>try\<close> block, and the call
  returns the body of the next endpoint.\<close>

theorem call_overpass_api_skips_unparseable:
  "List.find (\<lambda>e. answers_200 (net2 e ())) [''e1'', ''e2''] = Some ''e1''
   \<and> net2 ''e1'' () = Response 200 None
   \<and> call_overpass_api net2 [''e1'', ''e2''] () = Some 2"
  by code_simp

section \<open>Properties of resume and summary\<close>

text \<open>
  Claim C4.  When the names of the outlets are distinct and the names in the checkpoint
  are a strict subset of them, \<open>get_remaining_outlets\<close> returns the outlets whose names
  are not in the checkpoint, in their original order (the list filtered), and they are
  \<open>N - M\<close> many, for \<open>N\<close> outlets and \<open>M\<close> names in the checkpoint.
\<close>

theorem get_remaining_outlets_resume:
  assumes "distinct (map nama outlets)"
    and "set (map Nama_Outlet existing_results) \<subset> set (map nama outlets)"
  shows "get_remaining_outlets outlets existing_results
           = filter (\<lambda>outlet. nama outlet \<notin> set (map Nama_Outlet existing_results)) outlets
       \<and> length (get_remaining_outlets outlets existing_results)
           = length outlets - card (set (map Nama_Outlet existing_results))"
proof -
  let ?P = "set (map Nama_Outlet existing_results)"
  let ?names = "map nama outlets"
  have eq: "get_remaining_outlets outlets existing_results
           = filter (\<lambda>outlet. nama outlet \<notin> ?P) outlets"
    by (cases existing_results) (simp_all add: get_remaining_outlets_def Let_def)
  have "length (filter (\<lambda>outlet. nama outlet \<notin> ?P) outlets)
      = length (filter (\<lambda>n. n \<notin> ?P) ?names)"
    by (simp add: filter_map comp_def)
  also have "\<dots> = card (set (filter (\<lambda>n. n \<notin> ?P) ?names))"
  proof -
    have "distinct (filter (\<lambda>n. n \<notin> ?P) ?names)"
      using assms(1) by (rule distinct_filter)
    then show ?thesis by (rule distinct_card[symmetric])
  qed
  also have "set (filter (\<lambda>n. n \<notin> ?P) ?names) = set ?names - ?P"
    by auto
  also have "card (set ?names - ?P) = card (set ?names) - card ?P"
    using assms(2) by (intro card_Diff_subset) (auto intro: finite_subset)
  also have "card (set ?names) = length outlets"
    using distinct_card[OF assms(1)] by simp
  finally show ?thesis using eq by simp
qed


theorem get_remaining_outlets_resume_witness:
  "get_remaining_outlets three_outlets [plain_result ''B'' ''2, 2'' 2 2 []]
     = [\<lparr>nama = ''A'', koordinat = ''1, 1''\<rparr>, \<lparr>nama = ''C'', koordinat = ''1, 2''\<rparr>]
   \<and> length (get_remaining_outlets three_outlets [plain_result ''B'' ''2, 2'' 2 2 []]) = 3 - 1"
proof -
  have d: "distinct (map nama three_outlets)" by code_simp
  have s: "set (map Nama_Outlet [plain_result ''B'' ''2, 2'' 2 2 []]) \<subset> set (map nama three_outlets)"
    by (auto simp: three_outlets_def plain_result_def)
  have f: "filter (\<lambda>outlet. nama outlet \<notin> set (map Nama_Outlet [plain_result ''B'' ''2, 2'' 2 2 []])) three_outlets
      = [\<lparr>nama = ''A'', koordinat = ''1, 1''\<rparr>, \<lparr>nama = ''C'', koordinat = ''1, 2''\<rparr>]"
    by (simp add: three_outlets_def plain_result_def)
  have c: "card (set (map Nama_Outlet [plain_result ''B'' ''2, 2'' 2 2 []])) = 1"
    by (simp add: plain_result_def)
  have l: "length three_outlets = 3" by (simp add: three_outlets_def)
  from get_remaining_outlets_resume[OF d s] f c l show ?thesis by simp
qed







section \<open>Properties of the retry loop\<close>

lemma check_category_failing:
  assumes "\<forall>endpoint\<in>set (OVERPASS_ENDPOINTS cfg). \<forall>q. answer (post endpoint q) = None"
  shows "check_category cfg post lat lon radius results category = results"
proof -
  have "call_overpass_api post (OVERPASS_ENDPOINTS cfg)
          (Category_Query (USE_SIMPLIFIED_QUERIES cfg) category radius lat lon) = None"
    using assms by (intro call_none) simp
  then show ?thesis by (simp add: check_category_def)
qed

lemma foldl_check_category_failing:
  assumes "\<forall>endpoint\<in>set (OVERPASS_ENDPOINTS cfg). \<forall>q. answer (post endpoint q) = None"
  shows "foldl (check_category cfg post lat lon radius) results cs = results"
  by (induction cs) (simp_all add: check_category_failing[OF assms])

lemma check_nearby_failing:
  assumes fail: "\<forall>endpoint\<in>set (OVERPASS_ENDPOINTS cfg). \<forall>q. answer (post endpoint q) = None"
    and miss: "ENABLE_CACHE cfg \<longrightarrow> api_cache (lat, lon, radius) = None"
  shows "check_nearby_facilities_simple cfg post api_cache lat lon radius
           = (no_categories, store cfg api_cache (lat, lon, radius) no_categories)"
proof -
  have c: "call_overpass_api post (OVERPASS_ENDPOINTS cfg) (All_Categories_Query radius lat lon) = None"
    using fail by (intro call_none) simp
  have m: "(if ENABLE_CACHE cfg then api_cache (lat, lon, radius) else None) = None"
    using miss by simp
  show ?thesis
    unfolding check_nearby_facilities_simple_def Let_def m
    by (simp add: c foldl_check_category_failing[OF fail])
qed

lemma entries_no_categories:
  "facility_entries no_categories category_mapping
     = Inr (map (\<lambda>category. (category, False)) categories)"
  by code_simp

lemma all_false_flags:
  "map (map_of (map (\<lambda>category. (category, False)) categories)) categories = replicate 9 (Some False)"
  by code_simp

lemma retry_loop_raising:
  assumes raises: "\<forall>s la lo ra. isl (fst (check s la lo ra))"
  shows "retries \<le> max_retries \<Longrightarrow>
     \<exists>s'. retry_loop pyfloat check outlet max_retries radius retries s
            = (failed_record pyfloat outlet, max_retries, s')"
proof (induction "max_retries - retries" arbitrary: retries s)
  case 0
  then have "\<not> retries < max_retries" by simp
  moreover from 0 have "retries = max_retries" by simp
  ultimately show ?case by (subst retry_loop.simps) simp
next
  case (Suc n)
  then have lt: "retries < max_retries" by simp
  have "\<exists>e s'. attempt pyfloat check outlet radius s = (Inl e, s')"
  proof (cases "parse_coordinates pyfloat (koordinat outlet)")
    case (Inl e)
    then show ?thesis by (simp add: attempt_def)
  next
    case (Inr p)
    obtain la lo where p: "p = (la, lo)" by (cases p)
    obtain x s' where c: "check s la lo radius = (x, s')" by (cases "check s la lo radius")
    with raises have "isl x" by (metis fst_conv)
    then obtain e where "x = Inl e" by (cases x) auto
    with Inr p c show ?thesis by (simp add: attempt_def)
  qed
  then obtain e s' where a: "attempt pyfloat check outlet radius s = (Inl e, s')" by blast
  have "n = max_retries - Suc retries" using Suc.hyps(2) by simp
  moreover have "Suc retries \<le> max_retries" using lt by simp
  ultimately obtain s'' where
    "retry_loop pyfloat check outlet max_retries radius (Suc retries) s'
       = (failed_record pyfloat outlet, max_retries, s'')"
    using Suc.hyps(1) by blast
  then show ?case using lt a by (subst retry_loop.simps) simp
qed

text \<open>
  Claim C1, as amended.  A query client that always fails makes \<open>call_overpass_api\<close>
  return \<open>None\<close>, which the facility check reads as no facility and not as an error:
  for an outlet whose coordinates parse and whose result is not in the cache, the
  first attempt succeeds, so exactly one attempt is made and the record has all nine
  flags false and no \<open>Error\<close> entry (first part).  The record with the \<open>Error\<close> entry
  is what the loop returns, after exactly \<open>max_retries\<close> attempts, when the facility
  check raises at every attempt (second part).  In both cases a record is returned:
  no exception, and the outlet is not dropped.
\<close>

theorem process_outlet_with_retry_failures:
  "(parse_coordinates pyfloat (koordinat outlet) = Inr (lat, lon) \<and>
    (\<forall>endpoint\<in>set (OVERPASS_ENDPOINTS cfg). \<forall>q. answer (post endpoint q) = None) \<and>
    (ENABLE_CACHE cfg \<longrightarrow> api_cache (lat, lon, radius) = None) \<and> 0 < max_retries
    \<longrightarrow> (\<exists>r api_cache'.
           process_outlet_with_retry pyfloat (run_check cfg post) outlet max_retries radius api_cache
             = (Some r, 1, api_cache')
           \<and> map (flags r) categories = replicate 9 (Some False)
           \<and> Error r = None \<and> Nama_Outlet r = nama outlet))
   \<and> (parse_coordinates pyfloat (koordinat outlet) = Inr (lat, lon) \<and>
      (\<forall>s la lo ra. isl (fst (check s la lo ra)))
      \<longrightarrow> (\<exists>r s'.
             process_outlet_with_retry pyfloat check outlet max_retries radius s
               = (Some r, max_retries, s')
             \<and> map (flags r) categories = replicate 9 (Some False)
             \<and> Error r = Some ''Failed to process after multiple retries''
             \<and> Nama_Outlet r = nama outlet))"
proof (intro conjI impI)
  assume h: "parse_coordinates pyfloat (koordinat outlet) = Inr (lat, lon) \<and>
    (\<forall>endpoint\<in>set (OVERPASS_ENDPOINTS cfg). \<forall>q. answer (post endpoint q) = None) \<and>
    (ENABLE_CACHE cfg \<longrightarrow> api_cache (lat, lon, radius) = None) \<and> 0 < max_retries"
  let ?r = "\<lparr>Nama_Outlet = nama outlet, Koordinat = koordinat outlet,
              Latitude = lat, Longitude = lon,
              flags = map_of (map (\<lambda>category. (category, False)) categories), Error = None\<rparr>"
  let ?c = "store cfg api_cache (lat, lon, radius) no_categories"
  from h have chk: "check_nearby_facilities_simple cfg post api_cache lat lon radius = (no_categories, ?c)"
    by (intro check_nearby_failing) simp_all
  have "attempt pyfloat (run_check cfg post) outlet radius api_cache = (Inr ?r, ?c)"
    using h by (simp add: attempt_def run_check_def chk entries_no_categories)
  then have "retry_loop pyfloat (run_check cfg post) outlet max_retries radius 0 api_cache
        = (Some ?r, 1, ?c)"
    using h by (subst retry_loop.simps) simp
  then have "process_outlet_with_retry pyfloat (run_check cfg post) outlet max_retries radius api_cache
             = (Some ?r, 1, ?c)"
    by (simp add: process_outlet_with_retry_def)
  moreover have "map (flags ?r) categories = replicate 9 (Some False)"
    by (simp add: all_false_flags)
  ultimately show "\<exists>r api_cache'.
           process_outlet_with_retry pyfloat (run_check cfg post) outlet max_retries radius api_cache
             = (Some r, 1, api_cache')
           \<and> map (flags r) categories = replicate 9 (Some False)
           \<and> Error r = None \<and> Nama_Outlet r = nama outlet"
    by (intro exI[of _ ?r] exI[of _ ?c]) simp
next
  assume h: "parse_coordinates pyfloat (koordinat outlet) = Inr (lat, lon) \<and>
      (\<forall>s la lo ra. isl (fst (check s la lo ra)))"
  let ?r = "\<lparr>Nama_Outlet = nama outlet, Koordinat = koordinat outlet,
              Latitude = lat, Longitude = lon,
              flags = map_of (map (\<lambda>category. (category, False)) categories),
              Error = Some ''Failed to process after multiple retries''\<rparr>"
  from h have f: "failed_record pyfloat outlet = Some ?r"
    by (simp add: failed_record_def)
  from h have "\<forall>s la lo ra. isl (fst (check s la lo ra))" by simp
  from retry_loop_raising[OF this, of 0 max_retries pyfloat outlet radius s]
  obtain s' where "retry_loop pyfloat check outlet max_retries radius 0 s
            = (failed_record pyfloat outlet, max_retries, s')" by auto
  then have "process_outlet_with_retry pyfloat check outlet max_retries radius s
               = (Some ?r, max_retries, s')"
    by (simp add: process_outlet_with_retry_def f)
  moreover have "map (flags ?r) categories = replicate 9 (Some False)"
    by (simp add: all_false_flags)
  ultimately show "\<exists>r s'.
             process_outlet_with_retry pyfloat check outlet max_retries radius s
               = (Some r, max_retries, s')
             \<and> map (flags r) categories = replicate 9 (Some False)
             \<and> Error r = Some ''Failed to process after multiple retries''
             \<and> Nama_Outlet r = nama outlet"
    by (intro exI[of _ ?r] exI[of _ s']) simp
qed


theorem process_outlet_with_retry_failures_witness:
  "(\<exists>r api_cache'.
       process_outlet_with_retry (table_float coords_tab) (run_check example_config unreachable)
         \<lparr>nama = ''A'', koordinat = ''1, 2''\<rparr> 2 100 Map.empty = (Some r, 1, api_cache')
       \<and> Error r = None)
   \<and> (\<exists>r s'.
       process_outlet_with_retry (table_float coords_tab) always_raises
         \<lparr>nama = ''A'', koordinat = ''1, 2''\<rparr> 2 100 () = (Some r, 2, s')
       \<and> Error r = Some ''Failed to process after multiple retries'')"
proof -
  let ?o = "\<lparr>nama = ''A'', koordinat = ''1, 2''\<rparr>"
  have p: "parse_coordinates (table_float coords_tab) (koordinat ?o) = Inr (1, 2)"
    by code_simp
  have f: "\<forall>endpoint\<in>set (OVERPASS_ENDPOINTS example_config). \<forall>q. answer (unreachable endpoint q) = None"
    by (simp add: unreachable_def)
  have m: "ENABLE_CACHE example_config \<longrightarrow> (Map.empty :: rat api_cache) (1, 2, 100) = None"
    by simp
  have n: "(0::nat) < 2" by simp
  have r: "\<forall>s la lo ra. isl (fst (always_raises s la lo ra))"
    by (simp add: always_raises_def)
  note t = process_outlet_with_retry_failures[of "table_float coords_tab" ?o 1 2 example_config
      unreachable Map.empty 100 2 always_raises "()"]
  from t p f m n have 1: "\<exists>r api_cache'.
       process_outlet_with_retry (table_float coords_tab) (run_check example_config unreachable)
         ?o 2 100 Map.empty = (Some r, 1, api_cache')
       \<and> Error r = None"
    by blast
  from t p r have 2: "\<exists>r s'.
       process_outlet_with_retry (table_float coords_tab) always_raises ?o 2 100 () = (Some r, 2, s')
       \<and> Error r = Some ''Failed to process after multiple retries''"
    by blast
  from 1 2 show ?thesis by (rule conjI)
qed

text \<open>The claim as stated fails: when every endpoint is unreachable, the call with
  \<open>max_retries = 2\<close> makes one attempt, not two, and the record it returns has no
  \<open>Error\<close> entry.\<close>

theorem failing_client_one_attempt_no_error:
  "fst (snd (process_outlet_with_retry (table_float coords_tab) (run_check example_config unreachable)
       \<lparr>nama = ''A'', koordinat = ''1, 2''\<rparr> 2 100 Map.empty)) = 1
   \<and> map_option Error
        (fst (process_outlet_with_retry (table_float coords_tab) (run_check example_config unreachable)
           \<lparr>nama = ''A'', koordinat = ''1, 2''\<rparr> 2 100 Map.empty)) = Some None
   \<and> call_overpass_api unreachable (OVERPASS_ENDPOINTS example_config)
        (Category_Query True ''culinary'' 100 1 2) = None"
  by code_simp


section \<open>Properties of the batch run\<close>

lemma attempt_unparseable:
  "parse_coordinates pyfloat (koordinat outlet) = Inl e \<Longrightarrow>
     attempt pyfloat check outlet radius s = (Inl e, s)"
  by (simp add: attempt_def)

lemma retry_loop_unparseable:
  assumes "parse_coordinates pyfloat (koordinat outlet) = Inl e"
  shows "retries \<le> max_retries \<Longrightarrow>
     retry_loop pyfloat check outlet max_retries radius retries s = (None, max_retries, s)"
proof (induction "max_retries - retries" arbitrary: retries)
  case 0
  then have "retries = max_retries" by simp
  then show ?case using assms by (subst retry_loop.simps) (simp add: failed_record_def)
next
  case (Suc n)
  then have lt: "retries < max_retries" by simp
  have "n = max_retries - Suc retries" using Suc.hyps(2) by simp
  moreover have "Suc retries \<le> max_retries" using lt by simp
  ultimately have "retry_loop pyfloat check outlet max_retries radius (Suc retries) s
      = (None, max_retries, s)"
    by (rule Suc.hyps(1))
  then show ?case
    using lt by (subst retry_loop.simps) (simp add: attempt_unparseable[OF assms])
qed

lemma attempt_record:
  "attempt pyfloat check outlet radius s = (Inr r, s') \<Longrightarrow>
     Nama_Outlet r = nama outlet \<and> Koordinat r = koordinat outlet"
  by (auto simp: attempt_def split: sum.splits prod.splits)

lemma retry_loop_parseable:
  "parse_coordinates pyfloat (koordinat outlet) = Inr p \<Longrightarrow>
     \<exists>r. fst (retry_loop pyfloat check outlet max_retries radius retries s) = Some r
            \<and> Nama_Outlet r = nama outlet \<and> Koordinat r = koordinat outlet"
proof (induction pyfloat check outlet max_retries radius retries s rule: retry_loop.induct)
  case (1 pyfloat check outlet max_retries radius retries s)
  note p = "1.prems"
  show ?case
  proof (cases "retries < max_retries")
    case False
    obtain la lo where "p = (la, lo)" by (cases p)
    with p False show ?thesis
      by (subst retry_loop.simps) (simp add: failed_record_def)
  next
    case True
    obtain x s' where a: "attempt pyfloat check outlet radius s = (x, s')"
      by (cases "attempt pyfloat check outlet radius s")
    show ?thesis
    proof (cases x)
      case (Inr r)
      with a have "Nama_Outlet r = nama outlet \<and> Koordinat r = koordinat outlet"
        by (intro attempt_record) simp
      with True a Inr show ?thesis
        by (subst retry_loop.simps) simp
    next
      case (Inl e)
      with True a have "retry_loop pyfloat check outlet max_retries radius retries s
          = retry_loop pyfloat check outlet max_retries radius (Suc retries) s'"
        by (subst retry_loop.simps) simp
      moreover have "\<exists>r. fst (retry_loop pyfloat check outlet max_retries radius (Suc retries) s') = Some r
            \<and> Nama_Outlet r = nama outlet \<and> Koordinat r = koordinat outlet"
        using "1.IH"[OF True a[symmetric] Inl p] .
      ultimately show ?thesis by simp
    qed
  qed
qed

lemma worker_result:
  "(\<not> parseable pyfloat outlet \<longrightarrow> worker pyfloat check radius s outlet = (None, s))
   \<and> (parseable pyfloat outlet \<longrightarrow>
        (\<exists>r. fst (worker pyfloat check radius s outlet) = Some r
            \<and> Nama_Outlet r = nama outlet \<and> Koordinat r = koordinat outlet))"
proof (cases "parse_coordinates pyfloat (koordinat outlet)")
  case (Inl e)
  then have "retry_loop pyfloat check outlet 2 radius 0 s = (None, 2, s)"
    by (intro retry_loop_unparseable) simp_all
  with Inl show ?thesis
    by (simp add: parseable_def worker_def process_outlet_with_retry_def)
next
  case (Inr p)
  from retry_loop_parseable[OF this, of check 2 radius 0 s]
  obtain r where "fst (retry_loop pyfloat check outlet 2 radius 0 s) = Some r"
    "Nama_Outlet r = nama outlet" "Koordinat r = koordinat outlet" by blast
  with Inr show ?thesis
    by (auto simp: parseable_def worker_def process_outlet_with_retry_def split: prod.splits)
qed

lemma run_workers_records:
  "map (\<lambda>r. (Nama_Outlet r, Koordinat r)) (fst (run_workers (worker pyfloat check radius) xs s))
     = map (\<lambda>outlet. (nama outlet, koordinat outlet)) (filter (parseable pyfloat) xs)"
proof (induction xs arbitrary: s)
  case Nil
  show ?case by simp
next
  case (Cons x xs)
  obtain res s' where w: "worker pyfloat check radius s x = (res, s')"
    by (cases "worker pyfloat check radius s x")
  obtain rs s'' where rw: "run_workers (worker pyfloat check radius) xs s' = (rs, s'')"
    by (cases "run_workers (worker pyfloat check radius) xs s'")
  from Cons.IH[of s'] rw
  have ih: "map (\<lambda>r. (Nama_Outlet r, Koordinat r)) rs
     = map (\<lambda>outlet. (nama outlet, koordinat outlet)) (filter (parseable pyfloat) xs)" by simp
  show ?case
  proof (cases "parseable pyfloat x")
    case False
    with worker_result[of pyfloat x check radius s] w have "res = None" by simp
    with False w rw ih show ?thesis by simp
  next
    case True
    with worker_result[of pyfloat x check radius s] w obtain r where
      "res = Some r" "Nama_Outlet r = nama x" "Koordinat r = koordinat x" by auto
    with True w rw ih show ?thesis by simp
  qed
qed


lemma batch_slice:
  "take (min ((i + 1) * bs) (length xs) - i * bs) (drop (i * bs) xs) = take bs (drop (i * bs) xs)"
proof (cases "(i + 1) * bs \<le> length xs")
  case True
  then show ?thesis by (simp add: min_absorb1)
next
  case False
  then have "length (drop (i * bs) xs) \<le> bs" by simp
  then have "take bs (drop (i * bs) xs) = drop (i * bs) xs" by simp
  moreover have "take (length xs - i * bs) (drop (i * bs) xs) = drop (i * bs) xs" by simp
  moreover have "min ((i + 1) * bs) (length xs) = length xs" using False by simp
  ultimately show ?thesis by (simp only:)
qed

lemma take_next_batch:
  "take (Suc n * bs) xs = take (n * bs) xs @ take bs (drop (n * bs) xs)"
proof -
  have "Suc n * bs = n * bs + bs" by simp
  then show ?thesis by (simp only: take_add)
qed

lemma filter_permuted:
  assumes "mset ys = mset xs"
  shows "mset (map f (filter P ys)) = mset (map f (filter P xs))"
proof -
  have "mset (filter P ys) = mset (filter P xs)"
    using assms by (simp only: mset_filter)
  then show ?thesis by (simp only: mset_map)
qed

lemma batch_loop_invariant:
  assumes perm: "\<forall>i xs. mset (completion i xs) = mset xs"
  shows "foldl (batch_step completion disk_ok (worker pyfloat check radius) bs outlets)
           ([], None, s) [0..<n] = (all_results, progress_file, s') \<Longrightarrow>
     mset (map (\<lambda>r. (Nama_Outlet r, Koordinat r)) all_results)
       = mset (map (\<lambda>outlet. (nama outlet, koordinat outlet))
                 (filter (parseable pyfloat) (take (n * bs) outlets)))
     \<and> (\<forall>rs. progress_file = Some rs \<longrightarrow> set rs \<subseteq> set all_results)"
proof (induction n arbitrary: all_results progress_file s')
  case 0
  then show ?case by simp
next
  case (Suc n)
  let ?step = "batch_step completion disk_ok (worker pyfloat check radius) bs outlets"
  obtain ar pf s1 where acc: "foldl ?step ([], None, s) [0..<n] = (ar, pf, s1)"
    by (cases "foldl ?step ([], None, s) [0..<n]") auto
  note ih = Suc.IH[OF acc]
  let ?batch = "take bs (drop (n * bs) outlets)"
  obtain br s2 where rw: "run_workers (worker pyfloat check radius) (completion n ?batch) s1 = (br, s2)"
    by (cases "run_workers (worker pyfloat check radius) (completion n ?batch) s1")
  have step: "?step (ar, pf, s1) n = (ar @ br, if disk_ok n then Some (ar @ br) else pf, s2)"
    using rw batch_slice[of n bs outlets] by (simp add: batch_step_def Let_def)
  have "foldl ?step ([], None, s) [0..<Suc n] = ?step (ar, pf, s1) n"
    using acc by simp
  with Suc.prems step have res: "all_results = ar @ br"
      "progress_file = (if disk_ok n then Some (ar @ br) else pf)"
    by simp_all
  have "map (\<lambda>r. (Nama_Outlet r, Koordinat r)) br
     = map (\<lambda>outlet. (nama outlet, koordinat outlet)) (filter (parseable pyfloat) (completion n ?batch))"
    using run_workers_records[of pyfloat check radius "completion n ?batch" s1] rw by simp
  moreover have "mset (map (\<lambda>outlet. (nama outlet, koordinat outlet))
                   (filter (parseable pyfloat) (completion n ?batch)))
      = mset (map (\<lambda>outlet. (nama outlet, koordinat outlet)) (filter (parseable pyfloat) ?batch))"
    using perm by (intro filter_permuted) simp
  ultimately have br: "mset (map (\<lambda>r. (Nama_Outlet r, Koordinat r)) br)
      = mset (map (\<lambda>outlet. (nama outlet, koordinat outlet)) (filter (parseable pyfloat) ?batch))"
    by simp
  have 1: "mset (map (\<lambda>r. (Nama_Outlet r, Koordinat r)) all_results)
       = mset (map (\<lambda>outlet. (nama outlet, koordinat outlet))
                 (filter (parseable pyfloat) (take (Suc n * bs) outlets)))"
    using ih br by (simp add: res(1) take_next_batch del: mult_Suc)
  have 2: "\<forall>rs. progress_file = Some rs \<longrightarrow> set rs \<subseteq> set all_results"
    using ih by (auto simp: res)
  from 1 2 show ?case by (rule conjI)
qed

lemma batches_cover:
  assumes "0 < bs"
  shows "take ((length xs + bs - 1) div bs * bs) xs = xs"
proof -
  let ?a = "length xs + bs - 1"
  have "?a = ?a div bs * bs + ?a mod bs" by simp
  moreover have "?a mod bs < bs" using assms by (rule mod_less_divisor)
  ultimately have "length xs \<le> ?a div bs * bs" by linarith
  then show ?thesis by (rule take_all)
qed

text \<open>
  Claim C9.  For an outlet whose coordinate string does not parse,
  \<open>process_outlet_with_retry\<close> returns \<open>None\<close> once the retries are used up (first
  part).  A batch run with a positive batch size returns (second part), and, whatever
  the order in which the workers complete, its output holds one record for each outlet
  whose coordinates parse and none for the others, whatever the facility check does
  (an outlet whose check fails keeps its record); the progress file holds records of
  the output only (third part).
\<close>

theorem unparseable_outlet_absent:
  "(\<forall>e. parse_coordinates pyfloat (koordinat outlet) = Inl e \<longrightarrow>
       process_outlet_with_retry pyfloat check outlet max_retries radius s = (None, max_retries, s))
   \<and> (0 < batch_size \<longrightarrow>
        (\<exists>out. batch_process_outlets pyfloat check completion disk_ok outlets batch_size radius s
                 = Inr out))
   \<and> ((\<forall>i xs. mset (completion i xs) = mset xs) \<and>
       batch_process_outlets pyfloat check completion disk_ok outlets batch_size radius s
         = Inr (all_results, progress_file, s')
       \<longrightarrow> mset (map (\<lambda>r. (Nama_Outlet r, Koordinat r)) all_results)
             = mset (map (\<lambda>outlet. (nama outlet, koordinat outlet))
                       (filter (\<lambda>outlet. \<not> isl (parse_coordinates pyfloat (koordinat outlet)))
                          outlets))
           \<and> (\<forall>rs. progress_file = Some rs \<longrightarrow> set rs \<subseteq> set all_results))"
proof -
  have 1: "\<forall>e. parse_coordinates pyfloat (koordinat outlet) = Inl e \<longrightarrow>
       process_outlet_with_retry pyfloat check outlet max_retries radius s = (None, max_retries, s)"
  proof (intro allI impI)
    fix e
    assume "parse_coordinates pyfloat (koordinat outlet) = Inl e"
    then have "retry_loop pyfloat check outlet max_retries radius 0 s = (None, max_retries, s)"
      by (intro retry_loop_unparseable) simp_all
    then show "process_outlet_with_retry pyfloat check outlet max_retries radius s
        = (None, max_retries, s)"
      by (simp add: process_outlet_with_retry_def)
  qed
  have 2: "0 < batch_size \<longrightarrow>
        (\<exists>out. batch_process_outlets pyfloat check completion disk_ok outlets batch_size radius s
                 = Inr out)"
  proof (rule impI)
    assume "0 < batch_size"
    then have "batch_process_outlets pyfloat check completion disk_ok outlets batch_size radius s
        = Inr (foldl (batch_step completion disk_ok (worker pyfloat check radius) batch_size outlets)
                 ([], None, s) [0..<(length outlets + batch_size - 1) div batch_size])"
      by (simp add: batch_process_outlets_def batch_loop_def Let_def)
    then show "\<exists>out. batch_process_outlets pyfloat check completion disk_ok outlets batch_size radius s
                   = Inr out"
      by (rule exI)
  qed
  have 3: "(\<forall>i xs. mset (completion i xs) = mset xs) \<and>
       batch_process_outlets pyfloat check completion disk_ok outlets batch_size radius s
         = Inr (all_results, progress_file, s')
       \<longrightarrow> mset (map (\<lambda>r. (Nama_Outlet r, Koordinat r)) all_results)
             = mset (map (\<lambda>outlet. (nama outlet, koordinat outlet))
                       (filter (\<lambda>outlet. \<not> isl (parse_coordinates pyfloat (koordinat outlet)))
                          outlets))
           \<and> (\<forall>rs. progress_file = Some rs \<longrightarrow> set rs \<subseteq> set all_results)"
  proof (rule impI)
    assume h: "(\<forall>i xs. mset (completion i xs) = mset xs) \<and>
         batch_process_outlets pyfloat check completion disk_ok outlets batch_size radius s
           = Inr (all_results, progress_file, s')"
    then have pos: "0 < batch_size"
      by (auto simp: batch_process_outlets_def batch_loop_def split: if_splits)
    with h have f: "foldl (batch_step completion disk_ok (worker pyfloat check radius) batch_size outlets)
             ([], None, s) [0..<(length outlets + batch_size - 1) div batch_size]
           = (all_results, progress_file, s')"
      by (simp add: batch_process_outlets_def batch_loop_def Let_def)
    from h have perm: "\<forall>i xs. mset (completion i xs) = mset xs" by simp
    have inv: "mset (map (\<lambda>r. (Nama_Outlet r, Koordinat r)) all_results)
         = mset (map (\<lambda>outlet. (nama outlet, koordinat outlet))
                   (filter (parseable pyfloat) outlets))
       \<and> (\<forall>rs. progress_file = Some rs \<longrightarrow> set rs \<subseteq> set all_results)"
      using batch_loop_invariant[OF perm f] unfolding batches_cover[OF pos] .
    have "parseable pyfloat = (\<lambda>outlet. \<not> isl (parse_coordinates pyfloat (koordinat outlet)))"
      by (simp add: parseable_def fun_eq_iff)
    with inv show "mset (map (\<lambda>r. (Nama_Outlet r, Koordinat r)) all_results)
               = mset (map (\<lambda>outlet. (nama outlet, koordinat outlet))
                         (filter (\<lambda>outlet. \<not> isl (parse_coordinates pyfloat (koordinat outlet)))
                            outlets))
             \<and> (\<forall>rs. progress_file = Some rs \<longrightarrow> set rs \<subseteq> set all_results)"
      by simp
  qed
  show ?thesis by (rule conjI, rule 1, rule conjI, rule 2, rule 3)
qed


theorem unparseable_outlet_absent_witness:
  "process_outlet_with_retry (table_float coords_tab) (run_check example_config unreachable)
     \<lparr>nama = ''X'', koordinat = ''not a coordinate''\<rparr> 2 100 Map.empty = (None, 2, Map.empty)
   \<and> (\<exists>all_results progress_file s'.
        batch_process_outlets (table_float coords_tab) (run_check example_config unreachable)
          (\<lambda>i. rev) (\<lambda>i. True) mixed_outlets 2 100 Map.empty
          = Inr (all_results, progress_file, s')
        \<and> mset (map (\<lambda>r. (Nama_Outlet r, Koordinat r)) all_results)
            = {#(''A'', ''1, 1''), (''B'', ''2, 2'')#})"
proof -
  let ?x = "\<lparr>nama = ''X'', koordinat = ''not a coordinate''\<rparr>"
  let ?f = "table_float coords_tab"
  let ?c = "run_check example_config unreachable"
  have "isl (parse_coordinates ?f (koordinat ?x))" by code_simp
  then obtain e where e: "parse_coordinates ?f (koordinat ?x) = Inl e"
    by (cases "parse_coordinates ?f (koordinat ?x)") auto
  have perm: "\<forall>i xs. mset (rev xs :: outlet list) = mset xs" by simp
  have flt: "map (\<lambda>outlet. (nama outlet, koordinat outlet))
               (filter (\<lambda>outlet. \<not> isl (parse_coordinates ?f (koordinat outlet))) mixed_outlets)
             = [(''A'', ''1, 1''), (''B'', ''2, 2'')]"
    by code_simp
  note t = unparseable_outlet_absent[where pyfloat = ?f and outlet = ?x and check = ?c
      and max_retries = 2 and radius = 100 and s = Map.empty and batch_size = 2
      and completion = "\<lambda>i. rev" and disk_ok = "\<lambda>i. True" and outlets = mixed_outlets]
  from t[THEN conjunct1] e
  have 1: "process_outlet_with_retry ?f ?c ?x 2 100 Map.empty = (None, 2, Map.empty)"
    by blast
  have "(0::nat) < 2" by simp
  with t[THEN conjunct2, THEN conjunct1]
  obtain out where "batch_process_outlets ?f ?c (\<lambda>i. rev) (\<lambda>i. True) mixed_outlets 2 100 Map.empty
      = Inr out"
    by blast
  then obtain ar pf s' where b: "batch_process_outlets ?f ?c (\<lambda>i. rev) (\<lambda>i. True) mixed_outlets 2 100 Map.empty
      = Inr (ar, pf, s')"
    by (cases out) auto
  from t[where all_results = ar and progress_file = pf and s' = s', THEN conjunct2, THEN conjunct2]
    perm b
  have "mset (map (\<lambda>r. (Nama_Outlet r, Koordinat r)) ar)
      = mset (map (\<lambda>outlet. (nama outlet, koordinat outlet))
                (filter (\<lambda>outlet. \<not> isl (parse_coordinates ?f (koordinat outlet))) mixed_outlets))"
    by blast
  then have "mset (map (\<lambda>r. (Nama_Outlet r, Koordinat r)) ar) = {#(''A'', ''1, 1''), (''B'', ''2, 2'')#}"
    by (simp add: flt)
  with 1 b show ?thesis by blast
qed

section \<open>Radius escalation\<close>

lemma length_foldl_update:
  "length (foldl (\<lambda>res (i, u). res[i := u]) results ps) = length results"
  by (induction ps arbitrary: results) (simp_all add: split_def)

lemma nth_foldl_update_other:
  "j \<notin> fst ` set ps \<Longrightarrow> foldl (\<lambda>res (i, u). res[i := u]) results ps ! j = results ! j"
  by (induction ps arbitrary: results) (auto simp: split_def)

text \<open>
  What the escalation pass keeps, whatever the order of completion: it returns, the list
  keeps its length, and every entry with a flag set stays as it is.
\<close>

theorem increase_detection_radius_frame:
  "(\<exists>out. increase_detection_radius pyfloat check completion disk_ok results new_radius s = Inr out)
   \<and> (increase_detection_radius pyfloat check completion disk_ok results new_radius s
         = Inr (results', s')
       \<longrightarrow> length results' = length results
           \<and> (\<forall>j<length results. \<not> without_facilities (results ! j) \<longrightarrow> results' ! j = results ! j))"
proof -
  let ?ix = "filter (\<lambda>i. without_facilities (results ! i)) [0..<length results]"
  let ?os = "map (\<lambda>i. \<lparr>nama = Nama_Outlet (results ! i), koordinat = Koordinat (results ! i)\<rparr>) ?ix"
  have "0 < BATCH_SIZE" by (simp add: BATCH_SIZE_def)
  then obtain ur pf s1 where b: "batch_process_outlets pyfloat check completion disk_ok ?os BATCH_SIZE new_radius s
      = Inr (ur, pf, s1)"
    by (cases "foldl (batch_step completion disk_ok (worker pyfloat check new_radius) BATCH_SIZE ?os)
                 ([], None, s) [0..<(length ?os + BATCH_SIZE - 1) div BATCH_SIZE]")
       (simp add: batch_process_outlets_def batch_loop_def Let_def)
  let ?new = "foldl (\<lambda>res (i, u). res[i := u]) results (zip ?ix ur)"
  have eq: "increase_detection_radius pyfloat check completion disk_ok results new_radius s
      = (if ?os = [] then Inr (results, s) else Inr (?new, s1))"
    by (simp add: increase_detection_radius_def Let_def b)
  have 1: "\<exists>out. increase_detection_radius pyfloat check completion disk_ok results new_radius s = Inr out"
    by (simp add: eq)
  have 2: "increase_detection_radius pyfloat check completion disk_ok results new_radius s
         = Inr (results', s')
       \<longrightarrow> length results' = length results
           \<and> (\<forall>j<length results. \<not> without_facilities (results ! j) \<longrightarrow> results' ! j = results ! j)"
  proof (rule impI)
    assume h: "increase_detection_radius pyfloat check completion disk_ok results new_radius s
         = Inr (results', s')"
    show "length results' = length results
           \<and> (\<forall>j<length results. \<not> without_facilities (results ! j) \<longrightarrow> results' ! j = results ! j)"
    proof (cases "?os = []")
      case True
      with h eq have "results' = results" by simp
      then show ?thesis by simp
    next
      case False
      with h eq have r: "results' = ?new" by simp
      have len: "length results' = length results"
        by (simp only: r length_foldl_update)
      have "\<forall>j<length results. \<not> without_facilities (results ! j) \<longrightarrow> results' ! j = results ! j"
      proof (intro allI impI)
        fix j
        assume "j < length results" "\<not> without_facilities (results ! j)"
        then have "j \<notin> set ?ix" by simp
        moreover have "fst ` set (zip ?ix ur) \<subseteq> set ?ix"
          by (auto dest: set_zip_leftD)
        ultimately have "j \<notin> fst ` set (zip ?ix ur)" by blast
        then show "results' ! j = results ! j"
          unfolding r by (rule nth_foldl_update_other)
      qed
      with len show ?thesis by (rule conjI)
    qed
  qed
  from 1 2 show ?thesis by (rule conjI)
qed

theorem increase_detection_radius_frame_witness:
  "\<exists>results' s'.
     increase_detection_radius (table_float coords_tab) (run_check example_config unreachable)
       (\<lambda>i. rev) (\<lambda>i. True) three_results LARGER_RADIUS Map.empty = Inr (results', s')
     \<and> length results' = 3 \<and> results' ! 0 = three_results ! 0 \<and> results' ! 2 = three_results ! 2"
proof -
  note t = increase_detection_radius_frame[where pyfloat = "table_float coords_tab"
      and check = "run_check example_config unreachable" and completion = "\<lambda>i. rev"
      and disk_ok = "\<lambda>i. True" and results = three_results and new_radius = LARGER_RADIUS
      and s = Map.empty]
  from t[THEN conjunct1] obtain out where
    "increase_detection_radius (table_float coords_tab) (run_check example_config unreachable)
       (\<lambda>i. rev) (\<lambda>i. True) three_results LARGER_RADIUS Map.empty = Inr out" by blast
  then obtain rs s' where e:
    "increase_detection_radius (table_float coords_tab) (run_check example_config unreachable)
       (\<lambda>i. rev) (\<lambda>i. True) three_results LARGER_RADIUS Map.empty = Inr (rs, s')"
    by (cases out) auto
  have len: "length three_results = 3" by code_simp
  have f0: "\<not> without_facilities (three_results ! 0)" by code_simp
  have f2: "\<not> without_facilities (three_results ! 2)" by code_simp
  from t[where results' = rs and s' = s', THEN conjunct2] e
  have r: "length rs = length three_results"
    "\<forall>j<length three_results. \<not> without_facilities (three_results ! j) \<longrightarrow> rs ! j = three_results ! j"
    by blast+
  from r(2) len f0 have "rs ! 0 = three_results ! 0" by simp
  moreover from r(2) len f2 have "rs ! 2 = three_results ! 2" by simp
  ultimately show ?thesis using e r(1) len by auto
qed


text \<open>
  Claim C2.  The escalation pass writes the results of the second batch run over the
  all-false entries pair by pair, in the order in which the batch run returns them.
  That order is the order of completion of the workers, and a result \<open>None\<close> is
  missing from it.  First part: two all-false entries \<open>A\<close> and \<open>B\<close>, and the worker
  of \<open>B\<close> completes first; the entry at index 0 becomes the result of \<open>B\<close> and the
  one at index 1 the result of \<open>A\<close>.  Second part: the workers complete in order,
  but the coordinate string of \<open>X\<close> does not parse; the entry at index 0 becomes the
  result of \<open>B\<close>.
\<close>

theorem escalation_misplaces_results:
  "map_sum id (map Nama_Outlet \<circ> fst)
     (increase_detection_radius (table_float coords_tab) (run_check example_config unreachable)
        (\<lambda>i. rev) (\<lambda>i. True)
        [plain_result ''A'' ''1, 1'' 1 1 [], plain_result ''B'' ''2, 2'' 2 2 []]
        LARGER_RADIUS Map.empty)
     = Inr [''B'', ''A'']
   \<and> map_sum id (map Nama_Outlet \<circ> fst)
     (increase_detection_radius (table_float coords_tab) (run_check example_config unreachable)
        (\<lambda>i xs. xs) (\<lambda>i. True)
        [plain_result ''X'' ''not a coordinate'' 1 1 [], plain_result ''B'' ''2, 2'' 2 2 []]
        LARGER_RADIUS Map.empty)
     = Inr [''B'', ''B'']"
  by code_simp


end
